theory Spec2Isabelle
  imports Complex_Main
begin

section \<open>JavaScript values\<close>

text \<open>
  The catalog generator \<^verbatim>\<open>manga-automation.js\<close> reads JSON documents and tests
  their fields for truthiness. A JSON value is modelled by \<open>jsval\<close>; numbers that
  occur as counters are integers. \<open>JUndefined\<close> is what a property read returns
  for a missing key.
\<close>

datatype jsval =
    JUndefined
  | JNull
  | JBool bool
  | JNum int
  | JStr string
  | JArr "jsval list"
  | JObj "(string \<times> jsval) list"

fun truthy :: "jsval \<Rightarrow> bool" where
  "truthy JUndefined = False"
| "truthy JNull = False"
| "truthy (JBool b) = b"
| "truthy (JNum n) = (n \<noteq> 0)"
| "truthy (JStr s) = (s \<noteq> [])"
| "truthy (JArr xs) = True"
| "truthy (JObj kvs) = True"

text \<open>The operator \<^verbatim>\<open>a || b\<close>: the left operand when it is truthy, else the right.\<close>

definition jsOr :: "jsval \<Rightarrow> jsval \<Rightarrow> jsval" where
  "jsOr a b = (if truthy a then a else b)"

text \<open>
  A property read \<^verbatim>\<open>v.key\<close> on a value that is not null or undefined: an own
  key of an object, the \<^verbatim>\<open>length\<close> of an array or of a string, undefined
  otherwise.
\<close>

fun getProp :: "jsval \<Rightarrow> string \<Rightarrow> jsval" where
  "getProp (JObj kvs) k = (case map_of kvs k of Some v \<Rightarrow> v | None \<Rightarrow> JUndefined)"
| "getProp (JArr xs) k = (if k = ''length'' then JNum (int (length xs)) else JUndefined)"
| "getProp (JStr s) k = (if k = ''length'' then JNum (int (length s)) else JUndefined)"
| "getProp v k = JUndefined"

text \<open>
  A JavaScript number as \<^verbatim>\<open>parseFloat\<close> and the subtraction of two numbers
  produce it. Finite values are kept exact (a rational); the rounding of IEEE doubles is
  not modelled.
\<close>

datatype jsnum = NaN | NegInf | Fin rat | PosInf

fun js_minus :: "jsnum \<Rightarrow> jsnum \<Rightarrow> jsnum" where
  "js_minus NaN b = NaN"
| "js_minus a NaN = NaN"
| "js_minus (Fin a) (Fin b) = Fin (a - b)"
| "js_minus (Fin a) PosInf = NegInf"
| "js_minus (Fin a) NegInf = PosInf"
| "js_minus PosInf PosInf = NaN"
| "js_minus PosInf b = PosInf"
| "js_minus NegInf NegInf = NaN"
| "js_minus NegInf b = NegInf"

fun js_positive :: "jsnum \<Rightarrow> bool" where
  "js_positive (Fin a) = (0 < a)"
| "js_positive PosInf = True"
| "js_positive v = False"

fun js_negative :: "jsnum \<Rightarrow> bool" where
  "js_negative (Fin a) = (a < 0)"
| "js_negative NegInf = True"
| "js_negative v = False"

subsection \<open>Array.prototype.sort with a comparator\<close>

text \<open>
  \<^verbatim>\<open>xs.sort(cmp)\<close> is stable, and a comparator result that is \<open>NaN\<close> counts as
  zero. The model is the stable insertion sort: each element, in the order of the input,
  goes before the first element already placed that compares greater than it. Every
  conforming implementation returns this list when the comparator is a consistent
  ordering; for an inconsistent comparator (one that returns \<open>NaN\<close> for some pairs)
  the language leaves the order to the implementation.
\<close>

fun insertSorted :: "('a \<Rightarrow> 'a \<Rightarrow> jsnum) \<Rightarrow> 'a \<Rightarrow> 'a list \<Rightarrow> 'a list" where
  "insertSorted cmp x [] = [x]"
| "insertSorted cmp x (y # ys) =
     (if js_positive (cmp y x) then x # y # ys else y # insertSorted cmp x ys)"

definition jsSort :: "('a \<Rightarrow> 'a \<Rightarrow> jsnum) \<Rightarrow> 'a list \<Rightarrow> 'a list" where
  "jsSort cmp xs = foldl (\<lambda>acc x. insertSorted cmp x acc) [] xs"

text \<open>\<^verbatim>\<open>Array.from(new Set(xs))\<close>: the first occurrence of each element, in order.\<close>

fun uniqueInOrder :: "'a list \<Rightarrow> 'a list \<Rightarrow> 'a list" where
  "uniqueInOrder seen [] = []"
| "uniqueInOrder seen (x # xs) =
     (if x \<in> set seen then uniqueInOrder seen xs else x # uniqueInOrder (x # seen) xs)"

section \<open>Chapter identity resolver\<close>

text \<open>
  A string is a list of 8-bit characters. \<^verbatim>\<open>toLowerCase\<close> changes the ASCII capital
  letters only; no character outside ASCII has a letter of \<^verbatim>\<open>oneshot\<close> as its
  lower case, so the test for the oneshot folder is the same on the strings of the program.
\<close>

definition lowerChar :: "char \<Rightarrow> char" where
  "lowerChar c =
     (case map_of (zip ''ABCDEFGHIJKLMNOPQRSTUVWXYZ'' ''abcdefghijklmnopqrstuvwxyz'') c of
        Some d \<Rightarrow> d
      | None \<Rightarrow> c)"

definition toLowerCase :: "string \<Rightarrow> string" where
  "toLowerCase s = map lowerChar s"

definition isOneshotFolder :: "string \<Rightarrow> bool" where
  "isOneshotFolder folderName = (toLowerCase folderName = ''oneshot'')"

definition isDigit :: "char \<Rightarrow> bool" where
  "isDigit c = (c \<in> set ''0123456789'')"

definition digitVal :: "char \<Rightarrow> int" where
  "digitVal c =
     (case map_of (zip ''0123456789'' [0, 1, 2, 3, 4, 5, 6, 7, 8, 9]) c of
        Some d \<Rightarrow> d
      | None \<Rightarrow> 0)"

definition intOfDigits :: "string \<Rightarrow> int" where
  "intOfDigits s = foldl (\<lambda>acc c. 10 * acc + digitVal c) 0 s"

text \<open>The test \<^verbatim>\<open>/^\d+(\.\d+)?$/\<close>: digits, then optionally a dot and digits.\<close>

definition isNumericChapter :: "string \<Rightarrow> bool" where
  "isNumericChapter folderName =
     (takeWhile isDigit folderName \<noteq> [] \<and>
      (case dropWhile isDigit folderName of
         [] \<Rightarrow> True
       | c # ds \<Rightarrow> c = CHR ''.'' \<and> ds \<noteq> [] \<and> list_all isDigit ds))"

text \<open>
  \<^verbatim>\<open>parseFloat\<close> reads the longest prefix that is a decimal literal, after
  leading white space: a sign, then \<^verbatim>\<open>Infinity\<close> or digits with an optional
  fraction and an optional exponent. No such prefix gives \<open>NaN\<close>. The value is exact:
  where the program rounds to a double, or gives \<^verbatim>\<open>Infinity\<close> for a numeral above
  the range of doubles, the model keeps the rational. White space is the ASCII white
  space.
\<close>

definition isWhiteSpace :: "char \<Rightarrow> bool" where
  "isWhiteSpace c = (c \<in> set [CHR '' '', CHR 0x09, CHR 0x0A, CHR 0x0B, CHR 0x0C, CHR 0x0D])"

definition exponentFactor :: "string \<Rightarrow> rat" where
  "exponentFactor r =
     (case r of
        [] \<Rightarrow> 1
      | e # r' \<Rightarrow>
          if e = CHR ''e'' \<or> e = CHR ''E'' then
            (let minus = (r' \<noteq> [] \<and> hd r' = CHR ''-'');
                 ds = takeWhile isDigit
                        (if r' \<noteq> [] \<and> (hd r' = CHR ''-'' \<or> hd r' = CHR ''+'') then tl r' else r')
             in if ds = [] then 1
                else if minus then 1 / 10 ^ nat (intOfDigits ds)
                else 10 ^ nat (intOfDigits ds))
          else 1)"

definition parseFloat :: "string \<Rightarrow> jsnum" where
  "parseFloat s =
     (let t = dropWhile isWhiteSpace s;
          minus = (t \<noteq> [] \<and> hd t = CHR ''-'');
          u = (if t \<noteq> [] \<and> (hd t = CHR ''-'' \<or> hd t = CHR ''+'') then tl t else t)
      in if take 8 u = ''Infinity'' then (if minus then NegInf else PosInf)
         else
           (let ip = takeWhile isDigit u;
                r1 = dropWhile isDigit u;
                hasDot = (r1 \<noteq> [] \<and> hd r1 = CHR ''.'');
                fp = (if hasDot then takeWhile isDigit (tl r1) else []);
                r2 = (if hasDot then dropWhile isDigit (tl r1) else r1)
            in if ip = [] \<and> fp = [] then NaN
               else Fin ((if minus then - 1 else 1)
                         * (of_int (intOfDigits (ip @ fp)) / 10 ^ length fp)
                         * exponentFactor r2)))"

definition getChapterSortValue :: "string \<Rightarrow> jsnum" where
  "getChapterSortValue folderName =
     (if isOneshotFolder folderName then Fin (- 1) else parseFloat folderName)"

definition getChapterTitle :: "string \<Rightarrow> string" where
  "getChapterTitle folderName =
     (if isOneshotFolder folderName then ''Oneshot'' else ''Chapter '' @ folderName)"

definition getChapterNumber :: "string \<Rightarrow> jsnum" where
  "getChapterNumber folderName =
     (if isOneshotFolder folderName then Fin 0 else parseFloat folderName)"

text \<open>The comparator \<^verbatim>\<open>(a, b) => getChapterSortValue(a) - getChapterSortValue(b)\<close>.\<close>

definition compareChapters :: "string \<Rightarrow> string \<Rightarrow> jsnum" where
  "compareChapters a b = js_minus (getChapterSortValue a) (getChapterSortValue b)"

text \<open>The sort value of an identity as a rational, for stating that a list is sorted.\<close>

definition sortKey :: "string \<Rightarrow> rat" where
  "sortKey name = (case getChapterSortValue name of Fin v \<Rightarrow> v | _ \<Rightarrow> 0)"

section \<open>Collaborators\<close>

text \<open>
  Everything the generator reads from outside is a field of \<open>env\<close>, a snapshot taken
  for one run:
  \<^item> \<open>dirEntries\<close>: the entries of the working directory, each with the answer of
    \<^verbatim>\<open>isDirectory()\<close>; \<open>readdirThrows\<close> tells that \<^verbatim>\<open>readdirSync\<close> fails.
    Identities are plain entry names, so \<^verbatim>\<open>existsSync\<close> of an identity is
    membership in these entries; the empty string and names with a path separator, which
    \<^verbatim>\<open>path.join\<close> would resolve to another path, are no identities.
  \<^item> \<open>manifestFile\<close>: what reading and parsing \<^verbatim>\<open>manifest.json\<close> of a folder gives.
  \<^item> \<open>manifestLog\<close>, \<open>folderLog\<close>: the trimmed output of the two
    \<^verbatim>\<open>git log --reverse ... | head -1\<close> commands, or that \<^verbatim>\<open>execSync\<close> threw.
  \<^item> \<open>folderStat\<close>: \<^verbatim>\<open>stats.mtime.toISOString()\<close> of the folder, or that
    \<^verbatim>\<open>statSync\<close> threw.
  \<^item> \<open>clock\<close>: the string that the \<open>n\<close>-th reading of the wall clock in this run
    produces. The number of readings made so far is the only state that changes during a
    run; it is passed through every function that reads the clock.
  \<^item> \<open>wibString\<close>: the rendering of a date string in the zone UTC+7
    (\<^verbatim>\<open>new Date(s).toLocaleString('sv-SE', ...)\<close> followed by \<^verbatim>\<open>+07:00\<close>).
  \<^item> \<open>dateValue\<close>: the time value of \<^verbatim>\<open>new Date(s)\<close> in milliseconds,
    \<open>None\<close> for an invalid date.
\<close>

datatype manifest_read = NoManifestFile | ManifestUnreadable | ManifestParsed jsval

datatype exec_result = ExecThrew | ExecOutput string

datatype stat_result = StatThrew | StatMtime string

record env =
  dirEntries :: "(string \<times> bool) list"
  readdirThrows :: bool
  manifestFile :: "string \<Rightarrow> manifest_read"
  manifestLog :: "string \<Rightarrow> exec_result"
  folderLog :: "string \<Rightarrow> exec_result"
  folderStat :: "string \<Rightarrow> stat_result"
  clock :: "nat \<Rightarrow> string"
  wibString :: "string \<Rightarrow> string"
  dateValue :: "string \<Rightarrow> int option"

definition getWIBTimestamp :: "env \<Rightarrow> nat \<Rightarrow> string \<times> nat" where
  "getWIBTimestamp e t = (clock e t, Suc t)"

definition convertToWIB :: "env \<Rightarrow> string \<Rightarrow> string option" where
  "convertToWIB e isoString = (if isoString = [] then None else Some (wibString e isoString))"

subsection \<open>Manifests\<close>

definition loadManifest :: "env \<Rightarrow> string \<Rightarrow> jsval" where
  "loadManifest e folderName =
     (case manifestFile e folderName of
        ManifestParsed manifest \<Rightarrow> manifest
      | NoManifestFile \<Rightarrow> JNull
      | ManifestUnreadable \<Rightarrow> JNull)"

definition getTotalPagesFromManifest :: "env \<Rightarrow> string \<Rightarrow> jsval" where
  "getTotalPagesFromManifest e folderName =
     (let manifest = loadManifest e folderName
      in if truthy manifest then
           jsOr (jsOr (getProp manifest ''total_pages'') (getProp manifest ''totalPages''))
                (if truthy (getProp manifest ''pages'')
                 then getProp (getProp manifest ''pages'') ''length''
                 else JNum 0)
         else JNum 0)"

subsection \<open>Chapter folders\<close>

definition startsWithDot :: "string \<Rightarrow> bool" where
  "startsWithDot name = (case name of [] \<Rightarrow> False | c # cs \<Rightarrow> c = CHR ''.'')"

definition getChapterFolders :: "env \<Rightarrow> string list" where
  "getChapterFolders e =
     (if readdirThrows e then []
      else jsSort compareChapters
             (filter (\<lambda>name. isNumericChapter name \<or> isOneshotFolder name)
                (map fst
                   (filter (\<lambda>dirent. \<not> startsWithDot (fst dirent))
                      (filter (\<lambda>dirent. snd dirent) (dirEntries e))))))"

definition checkIfFolderExists :: "env \<Rightarrow> string \<Rightarrow> bool" where
  "checkIfFolderExists e folderName = (folderName \<in> set (map fst (dirEntries e)))"

subsection \<open>Upload date\<close>

text \<open>
  The whole body of \<^verbatim>\<open>getUploadDate\<close> is one \<^verbatim>\<open>try\<close> block whose
  \<^verbatim>\<open>catch\<close> returns the current time. \<open>uploadDateFromFolder\<close> is the part
  of the block after the manifest step. The three calls of \<^verbatim>\<open>convertToWIB\<close>
  pass a string that is not empty (two are guarded by a truthiness test, the third is the
  result of \<^verbatim>\<open>toISOString\<close>), so its \<^verbatim>\<open>null\<close> branch is not taken there
  and the result is \<open>wibString\<close> of the argument.
\<close>

definition uploadDateFromFolder :: "env \<Rightarrow> string \<Rightarrow> nat \<Rightarrow> string \<times> nat" where
  "uploadDateFromFolder e folderName t =
     (case folderLog e folderName of
        ExecThrew \<Rightarrow> getWIBTimestamp e t
      | ExecOutput folderResult \<Rightarrow>
          if folderResult \<noteq> [] then (wibString e folderResult, t)
          else (case folderStat e folderName of
                  StatThrew \<Rightarrow> getWIBTimestamp e t
                | StatMtime mtimeString \<Rightarrow> (wibString e mtimeString, t)))"

definition getUploadDate :: "env \<Rightarrow> string \<Rightarrow> bool \<Rightarrow> nat \<Rightarrow> string \<times> nat" where
  "getUploadDate e folderName isLocked t =
     (if \<not> isLocked then
        (case manifestLog e folderName of
           ExecThrew \<Rightarrow> getWIBTimestamp e t
         | ExecOutput manifestResult \<Rightarrow>
             if manifestResult \<noteq> [] then (wibString e manifestResult, t)
             else uploadDateFromFolder e folderName t)
      else uploadDateFromFolder e folderName t)"

section \<open>Configuration and previous catalog\<close>

text \<open>
  The configuration gives the list of locked identities and an optional initial view
  count (\<open>JUndefined\<close> when absent). The previous catalog is the parsed
  \<^verbatim>\<open>manga.json\<close>, \<open>None\<close> when there is none; its \<^verbatim>\<open>manga\<close> section,
  its \<^verbatim>\<open>chapters\<close> object and the fields of a chapter may each be missing, as the
  generator tests for them. A chapter of the previous catalog is an object; its upload
  date, when present, is a string. \<open>oc_locked\<close> is the truthiness of the stored flag,
  \<open>oc_uploadDate\<close> is \<open>None\<close> for a missing date, and \<open>oc_views\<close> is
  \<open>JUndefined\<close> for missing views.
\<close>

record config =
  lockedChapters :: "string list"
  configViews :: jsval

record old_chapter =
  oc_locked :: bool
  oc_uploadDate :: "string option"
  oc_views :: jsval

record manga_section =
  ms_views :: jsval

record old_catalog =
  old_manga :: "manga_section option"
  old_chapters :: "(string \<times> old_chapter) list option"

text \<open>
  The expression
  \<^verbatim>\<open>oldMangaData && oldMangaData.chapters && oldMangaData.chapters[chapterName]\<close>.
\<close>

definition oldChapterOf :: "old_catalog option \<Rightarrow> string \<Rightarrow> old_chapter option" where
  "oldChapterOf oldMangaData chapterName =
     (case oldMangaData of
        None \<Rightarrow> None
      | Some cat \<Rightarrow>
          (case old_chapters cat of
             None \<Rightarrow> None
           | Some chs \<Rightarrow> map_of chs chapterName))"

text \<open>Version 6.2 returns the stored views when they are truthy.\<close>

definition getOldChapterViews_v62 :: "string \<Rightarrow> old_catalog option \<Rightarrow> jsval" where
  "getOldChapterViews_v62 chapterName oldMangaData =
     (case oldMangaData of
        None \<Rightarrow> JNum 0
      | Some cat \<Rightarrow>
          (case old_chapters cat of
             None \<Rightarrow> JNum 0
           | Some chs \<Rightarrow>
               (case map_of chs chapterName of
                  Some oldChapter \<Rightarrow>
                    if truthy (oc_views oldChapter) then oc_views oldChapter else JNum 0
                | None \<Rightarrow> JNum 0)))"

text \<open>Version 7.0 returns the stored views when they are not undefined.\<close>

definition getOldChapterViews_v70 :: "string \<Rightarrow> old_catalog option \<Rightarrow> jsval" where
  "getOldChapterViews_v70 chapterName oldMangaData =
     (case oldMangaData of
        None \<Rightarrow> JNum 0
      | Some cat \<Rightarrow>
          (case old_chapters cat of
             None \<Rightarrow> JNum 0
           | Some chs \<Rightarrow>
               (case map_of chs chapterName of
                  Some oldChapter \<Rightarrow>
                    if oc_views oldChapter \<noteq> JUndefined then oc_views oldChapter else JNum 0
                | None \<Rightarrow> JNum 0)))"

section \<open>Catalog reconciler\<close>

record chapter_record =
  title :: string
  chapterNumber :: jsnum
  folder :: string
  uploadDate :: string
  totalPages :: jsval
  pages :: jsval
  locked :: bool
  views :: jsval

subsection \<open>The chapters object\<close>

text \<open>
  The object \<^verbatim>\<open>chapters\<close> is an association list in insertion order.
  \<^verbatim>\<open>chapters[k] = v\<close> replaces the value of an existing key and appends a new one.
  \<^verbatim>\<open>Object.values\<close> enumerates the keys that are array indices first, in ascending
  numeric order, then the other keys in insertion order. Keys are chapter identities (the
  oneshot or a decimal numeral); the key \<^verbatim>\<open>__proto__\<close>, which an assignment would not
  store as an own property, is none and is not treated apart.
\<close>

type_synonym chapters_object = "(string \<times> chapter_record) list"

definition setProperty :: "string \<Rightarrow> 'a \<Rightarrow> (string \<times> 'a) list \<Rightarrow> (string \<times> 'a) list" where
  "setProperty k v obj =
     (if k \<in> set (map fst obj)
      then map (\<lambda>kv. if fst kv = k then (k, v) else kv) obj
      else obj @ [(k, v)])"

definition isArrayIndex :: "string \<Rightarrow> bool" where
  "isArrayIndex k =
     (k \<noteq> [] \<and> list_all isDigit k \<and> (k = ''0'' \<or> hd k \<noteq> CHR ''0'')
      \<and> intOfDigits k < 4294967295)"

definition objectValues :: "(string \<times> 'a) list \<Rightarrow> 'a list" where
  "objectValues obj =
     map snd
       (sort_key (\<lambda>kv. intOfDigits (fst kv)) (filter (\<lambda>kv. isArrayIndex (fst kv)) obj)
        @ filter (\<lambda>kv. \<not> isArrayIndex (fst kv)) obj)"

subsection \<open>The pre-pass\<close>

text \<open>
  The list \<^verbatim>\<open>removedLockedChapters\<close> that the pre-pass collects over the keys of
  the previous chapters. The generator prints it and does not use it again.
\<close>

definition removedLockedChapters :: "config \<Rightarrow> old_catalog option \<Rightarrow> env \<Rightarrow> string list" where
  "removedLockedChapters cfg oldMangaData e =
     (case oldMangaData of
        None \<Rightarrow> []
      | Some cat \<Rightarrow>
          (case old_chapters cat of
             None \<Rightarrow> []
           | Some chs \<Rightarrow>
               filter
                 (\<lambda>chapterName.
                    case map_of chs chapterName of
                      None \<Rightarrow> False
                    | Some oldChapter \<Rightarrow>
                        oc_locked oldChapter
                        \<and> \<not> checkIfFolderExists e chapterName
                        \<and> chapterName \<notin> set (lockedChapters cfg))
                 (map fst chs)))"

subsection \<open>One chapter\<close>

text \<open>
  The upload date of a chapter, with the clock readings made so far. A locked chapter
  without a folder keeps the date of its previous record when that record has one.
\<close>

definition chapterUploadDate ::
  "config \<Rightarrow> old_catalog option \<Rightarrow> env \<Rightarrow> string \<Rightarrow> nat \<Rightarrow> string \<times> nat" where
  "chapterUploadDate cfg oldMangaData e chapterName t =
     (let folderExists = checkIfFolderExists e chapterName;
          isLocked = (chapterName \<in> set (lockedChapters cfg))
      in if isLocked \<and> \<not> folderExists then
           (case oldChapterOf oldMangaData chapterName of
              None \<Rightarrow> getWIBTimestamp e t
            | Some oldChapter \<Rightarrow>
                (case oc_uploadDate oldChapter of
                   None \<Rightarrow> getWIBTimestamp e t
                 | Some d \<Rightarrow> if d \<noteq> [] then (d, t) else getWIBTimestamp e t))
         else if folderExists then getUploadDate e chapterName isLocked t
         else getWIBTimestamp e t)"

text \<open>
  The body of the loop over the sorted names, version 6.2 and version 7.0. They differ in
  the views only. (Version 6.2 also collects the unlocked chapters that have a folder in a
  list that it never reads.)
\<close>

definition chapterEntry_v62 ::
  "config \<Rightarrow> old_catalog option \<Rightarrow> bool \<Rightarrow> env \<Rightarrow> string \<Rightarrow> nat \<Rightarrow> chapter_record \<times> nat" where
  "chapterEntry_v62 cfg oldMangaData isFirstTime e chapterName t =
     (let folderExists = checkIfFolderExists e chapterName;
          pageCount = (if folderExists then getTotalPagesFromManifest e chapterName else JNum 0);
          isInLockedList = (chapterName \<in> set (lockedChapters cfg));
          isLocked = isInLockedList;
          dated = chapterUploadDate cfg oldMangaData e chapterName t;
          oldViews = (if isFirstTime then JNum 0
                      else getOldChapterViews_v62 chapterName oldMangaData)
      in (\<lparr> title = getChapterTitle chapterName,
             chapterNumber = getChapterNumber chapterName,
             folder = chapterName,
             uploadDate = fst dated,
             totalPages = pageCount,
             pages = pageCount,
             locked = isLocked,
             views = oldViews \<rparr>,
          snd dated))"

definition chapterEntry_v70 ::
  "config \<Rightarrow> old_catalog option \<Rightarrow> env \<Rightarrow> string \<Rightarrow> nat \<Rightarrow> chapter_record \<times> nat" where
  "chapterEntry_v70 cfg oldMangaData e chapterName t =
     (let folderExists = checkIfFolderExists e chapterName;
          pageCount = (if folderExists then getTotalPagesFromManifest e chapterName else JNum 0);
          isInLockedList = (chapterName \<in> set (lockedChapters cfg));
          isLocked = isInLockedList;
          dated = chapterUploadDate cfg oldMangaData e chapterName t;
          oldViews = getOldChapterViews_v70 chapterName oldMangaData
      in (\<lparr> title = getChapterTitle chapterName,
             chapterNumber = getChapterNumber chapterName,
             folder = chapterName,
             uploadDate = fst dated,
             totalPages = pageCount,
             pages = pageCount,
             locked = isLocked,
             views = oldViews \<rparr>,
          snd dated))"

text \<open>
  The loop \<^verbatim>\<open>sortedChapterNames.forEach\<close>: the chapters object built so far and the
  clock readings made so far go from one name to the next.
\<close>

fun forEachChapter ::
  "(string \<Rightarrow> nat \<Rightarrow> chapter_record \<times> nat) \<Rightarrow> string list \<Rightarrow> chapters_object \<Rightarrow> nat
     \<Rightarrow> chapters_object \<times> nat" where
  "forEachChapter body [] chapters t = (chapters, t)"
| "forEachChapter body (chapterName # rest) chapters t =
     (let entry = body chapterName t
      in forEachChapter body rest (setProperty chapterName (fst entry) chapters) (snd entry))"

subsection \<open>The last chapter update\<close>

record chapter_date =
  cd_chapterName :: string
  cd_uploadDate :: string
  cd_locked :: bool

definition dateNumber :: "env \<Rightarrow> string \<Rightarrow> jsnum" where
  "dateNumber e s = (case dateValue e s of None \<Rightarrow> NaN | Some ms \<Rightarrow> Fin (of_int ms))"

text \<open>The comparator \<^verbatim>\<open>(a, b) => new Date(b.uploadDate) - new Date(a.uploadDate)\<close>.\<close>

definition compareDates :: "env \<Rightarrow> chapter_date \<Rightarrow> chapter_date \<Rightarrow> jsnum" where
  "compareDates e a b = js_minus (dateNumber e (cd_uploadDate b)) (dateNumber e (cd_uploadDate a))"

text \<open>
  The first element of the sorted dates when there is one, the current time otherwise.
  Sorting keeps the length, so the sorted list is empty exactly when
  \<^verbatim>\<open>allChapterDates.length > 0\<close> fails.
\<close>

definition lastChapterUpdateOf :: "env \<Rightarrow> chapters_object \<Rightarrow> nat \<Rightarrow> string \<times> nat" where
  "lastChapterUpdateOf e chapters t =
     (let allChapterDates =
            map (\<lambda>ch. \<lparr> cd_chapterName = folder ch,
                        cd_uploadDate = uploadDate ch,
                        cd_locked = locked ch \<rparr>)
                (objectValues chapters)
      in case jsSort (compareDates e) allChapterDates of
           [] \<Rightarrow> getWIBTimestamp e t
         | newest # older \<Rightarrow> (cd_uploadDate newest, t))"

subsection \<open>generateChaptersData\<close>

text \<open>
  The working list is the union of the enumerated folders and the configured locked
  identities, each once, sorted by sort value. The result is the chapters object and the
  last chapter update, together with the number of clock readings made.
\<close>

record generated =
  chapters :: chapters_object
  lastChapterUpdate :: string

definition sortedChapterNames :: "config \<Rightarrow> env \<Rightarrow> string list" where
  "sortedChapterNames cfg e =
     jsSort compareChapters (uniqueInOrder [] (getChapterFolders e @ lockedChapters cfg))"

definition generateChaptersData_v62 ::
  "config \<Rightarrow> old_catalog option \<Rightarrow> bool \<Rightarrow> env \<Rightarrow> nat \<Rightarrow> generated \<times> nat" where
  "generateChaptersData_v62 cfg oldMangaData isFirstTime e t =
     (let looped = forEachChapter (chapterEntry_v62 cfg oldMangaData isFirstTime e)
                     (sortedChapterNames cfg e) [] t;
          lastUpdate = lastChapterUpdateOf e (fst looped) (snd looped)
      in (\<lparr> chapters = fst looped, lastChapterUpdate = fst lastUpdate \<rparr>, snd lastUpdate))"

definition generateChaptersData_v70 ::
  "config \<Rightarrow> old_catalog option \<Rightarrow> env \<Rightarrow> nat \<Rightarrow> generated \<times> nat" where
  "generateChaptersData_v70 cfg oldMangaData e t =
     (let looped = forEachChapter (chapterEntry_v70 cfg oldMangaData e)
                     (sortedChapterNames cfg e) [] t;
          lastUpdate = lastChapterUpdateOf e (fst looped) (snd looped)
      in (\<lparr> chapters = fst looped, lastChapterUpdate = fst lastUpdate \<rparr>, snd lastUpdate))"

section \<open>Catalog assembler\<close>

text \<open>
  \<^verbatim>\<open>commandGenerate\<close> decides whether this is a first run and computes the
  aggregate view counter of the new document from the previous catalog and the
  configuration; the two versions differ in the test on the previous counter.
\<close>

definition isFirstTimeOf :: "old_catalog option \<Rightarrow> bool" where
  "isFirstTimeOf oldMangaData =
     (case oldMangaData of None \<Rightarrow> True | Some cat \<Rightarrow> old_manga cat = None)"

definition totalViews_v62 :: "config \<Rightarrow> old_catalog option \<Rightarrow> jsval" where
  "totalViews_v62 cfg oldMangaData =
     (case oldMangaData of
        None \<Rightarrow> jsOr (configViews cfg) (JNum 0)
      | Some cat \<Rightarrow>
          (case old_manga cat of
             None \<Rightarrow> jsOr (configViews cfg) (JNum 0)
           | Some manga \<Rightarrow> jsOr (ms_views manga) (JNum 0)))"

definition totalViews_v70 :: "config \<Rightarrow> old_catalog option \<Rightarrow> jsval" where
  "totalViews_v70 cfg oldMangaData =
     (case oldMangaData of
        None \<Rightarrow> jsOr (configViews cfg) (JNum 0)
      | Some cat \<Rightarrow>
          (case old_manga cat of
             None \<Rightarrow> jsOr (configViews cfg) (JNum 0)
           | Some manga \<Rightarrow>
               if ms_views manga \<noteq> JUndefined then ms_views manga
               else jsOr (configViews cfg) (JNum 0)))"

section \<open>A sample run\<close>

text \<open>
  A concrete environment, configuration and previous catalog, used to evaluate the
  functions above. Storage holds the folders \<open>2\<close>, \<open>oneshot\<close>, \<open>3.5\<close> and
  \<open>4\<close>; the configuration locks \<open>5\<close>, \<open>6\<close>, \<open>9\<close> and \<open>2\<close>; the
  previous catalog knows \<open>5\<close> and \<open>6\<close> (locked, the second without an upload
  date), \<open>7\<close> (not locked), \<open>8\<close> (locked) and \<open>2\<close>. The history query for
  the manifest of \<open>4\<close> throws. The names \<open>11\<close> and \<open>12\<close> are no chapters of
  the run; the history query for the folder \<open>11\<close> and the stat of \<open>12\<close> throw.
\<close>

definition sampleWib :: "string \<Rightarrow> string" where
  "sampleWib s =
     (case map_of [(''2024-01-01T00:00:00.000Z'', ''2024-01-01T07:00:00+07:00''),
                   (''2024-02-01T12:00:00+07:00'', ''2024-02-01T12:00:00+07:00''),
                   (''2024-03-01T10:00:00+09:00'', ''2024-03-01T08:00:00+07:00''),
                   (''2024-04-01T12:00:00+07:00'', ''2024-04-01T12:00:00+07:00'')] s of
        Some w \<Rightarrow> w
      | None \<Rightarrow> ''InvalidTDate+07:00'')"

definition sampleDateValue :: "string \<Rightarrow> int option" where
  "sampleDateValue =
     map_of [(''2024-01-01T07:00:00+07:00'', 1704067200000),
             (''2024-02-01T12:00:00+07:00'', 1706763600000),
             (''2024-03-01T08:00:00+07:00'', 1709254800000),
             (''2024-04-01T12:00:00+07:00'', 1711947600000),
             (''2023-12-24T08:30:00+07:00'', 1703381400000),
             (''2026-11-03T09:00:00+07:00'', 1793671200000),
             (''2026-11-03T09:00:01+07:00'', 1793671201000),
             (''2026-11-03T09:00:02+07:00'', 1793671202000)]"

definition sampleEnv :: env where
  "sampleEnv =
     \<lparr> dirEntries = [(''2'', True), (''oneshot'', True), (''3.5'', True), (''4'', True),
                     (''.git'', True), (''manga.json'', False)],
       readdirThrows = False,
       manifestFile =
         (\<lambda>n. if n = ''3.5'' then ManifestParsed (JObj [(''total_pages'', JNum 20)])
              else if n = ''2'' then ManifestParsed (JObj [(''pages'', JArr [JStr ''a'', JStr ''b''])])
              else if n = ''oneshot'' then ManifestUnreadable
              else NoManifestFile),
       manifestLog =
         (\<lambda>n. if n = ''3.5'' then ExecOutput ''2024-03-01T10:00:00+09:00''
              else if n = ''4'' then ExecThrew
              else ExecOutput []),
       folderLog =
         (\<lambda>n. if n = ''2'' then ExecOutput ''2024-02-01T12:00:00+07:00''
              else if n = ''4'' then ExecOutput ''2024-04-01T12:00:00+07:00''
              else if n = ''11'' then ExecThrew
              else ExecOutput []),
       folderStat =
         (\<lambda>n. if n = ''12'' then StatThrew else StatMtime ''2024-01-01T00:00:00.000Z''),
       clock =
         (\<lambda>n. if n = 0 then ''2026-11-03T09:00:00+07:00''
              else if n = 1 then ''2026-11-03T09:00:01+07:00''
              else ''2026-11-03T09:00:02+07:00''),
       wibString = sampleWib,
       dateValue = sampleDateValue \<rparr>"

definition sampleConfig :: config where
  "sampleConfig = \<lparr> lockedChapters = [''5'', ''6'', ''9'', ''2''], configViews = JNum 100 \<rparr>"

definition sampleCatalog :: "old_catalog option" where
  "sampleCatalog =
     Some \<lparr> old_manga = Some \<lparr> ms_views = JNum 7 \<rparr>,
            old_chapters = Some
              [(''5'', \<lparr> oc_locked = True, oc_uploadDate = Some ''2023-12-24T08:30:00+07:00'',
                         oc_views = JNum 40 \<rparr>),
               (''6'', \<lparr> oc_locked = True, oc_uploadDate = None, oc_views = JNum 12 \<rparr>),
               (''7'', \<lparr> oc_locked = False, oc_uploadDate = Some ''2023-12-24T08:30:00+07:00'',
                         oc_views = JNum 3 \<rparr>),
               (''8'', \<lparr> oc_locked = True, oc_uploadDate = Some ''2023-12-24T08:30:00+07:00'',
                         oc_views = JNum 9 \<rparr>),
               (''2'', \<lparr> oc_locked = False, oc_uploadDate = Some ''2024-02-01T12:00:00+07:00'',
                         oc_views = JNum 0 \<rparr>)] \<rparr>"

text \<open>A previous catalog whose \<^verbatim>\<open>manga\<close> section has no view counter.\<close>

definition sampleCatalogNoViews :: "old_catalog option" where
  "sampleCatalogNoViews =
     Some \<lparr> old_manga = Some \<lparr> ms_views = JUndefined \<rparr>, old_chapters = Some [] \<rparr>"

text \<open>A run with no chapter folder and no locked identity.\<close>

definition emptyEnv :: env where
  "emptyEnv = sampleEnv \<lparr> dirEntries := [(''.git'', True), (''manga.json'', False)] \<rparr>"

definition emptyConfig :: config where
  "emptyConfig = \<lparr> lockedChapters = [], configViews = JUndefined \<rparr>"

section \<open>Facts about sorting and enumeration\<close>

lemma set_insertSorted: "set (insertSorted cmp x ys) = insert x (set ys)"
  by (induction ys) auto

lemma length_insertSorted: "length (insertSorted cmp x ys) = Suc (length ys)"
  by (induction ys) auto

lemma distinct_insertSorted: "distinct (insertSorted cmp x ys) = (x \<notin> set ys \<and> distinct ys)"
  by (induction ys) (auto simp: set_insertSorted)

lemma set_foldl_insertSorted:
  "set (foldl (\<lambda>acc x. insertSorted cmp x acc) acc xs) = set acc \<union> set xs"
  by (induction xs arbitrary: acc) (auto simp: set_insertSorted)

lemma length_foldl_insertSorted:
  "length (foldl (\<lambda>acc x. insertSorted cmp x acc) acc xs) = length acc + length xs"
  by (induction xs arbitrary: acc) (auto simp: length_insertSorted)

lemma distinct_foldl_insertSorted:
  "distinct (foldl (\<lambda>acc x. insertSorted cmp x acc) acc xs)
     = (distinct acc \<and> distinct xs \<and> set acc \<inter> set xs = {})"
  by (induction xs arbitrary: acc) (auto simp: distinct_insertSorted set_insertSorted)

lemma set_jsSort: "set (jsSort cmp xs) = set xs"
  by (simp add: jsSort_def set_foldl_insertSorted)

lemma length_jsSort: "length (jsSort cmp xs) = length xs"
  by (simp add: jsSort_def length_foldl_insertSorted)

lemma jsSort_Nil_iff: "jsSort cmp xs = [] \<longleftrightarrow> xs = []"
  using length_jsSort [of cmp xs] by (metis length_0_conv)

lemma distinct_jsSort: "distinct (jsSort cmp xs) = distinct xs"
  by (simp add: jsSort_def distinct_foldl_insertSorted)

lemma sorted_insertSorted:
  fixes key :: "'a \<Rightarrow> 'b::linorder"
  assumes "\<And>y. y \<in> set ys \<Longrightarrow> js_positive (cmp y x) = (key x < key y)"
    and "sorted_wrt (\<lambda>a b. key a \<le> key b) ys"
  shows "sorted_wrt (\<lambda>a b. key a \<le> key b) (insertSorted cmp x ys)"
  using assms
proof (induction ys)
  case Nil
  then show ?case by simp
next
  case (Cons y ys)
  show ?case
  proof (cases "js_positive (cmp y x)")
    case True
    then have "key x < key y" using Cons.prems(1) by simp
    then show ?thesis using True Cons.prems(2) by fastforce
  next
    case False
    then have "key y \<le> key x" using Cons.prems(1) [of y] by auto
    moreover have "sorted_wrt (\<lambda>a b. key a \<le> key b) (insertSorted cmp x ys)"
      using Cons by auto
    ultimately show ?thesis using False Cons.prems(2) by (auto simp: set_insertSorted)
  qed
qed

lemma sorted_foldl_insertSorted:
  fixes key :: "'a \<Rightarrow> 'b::linorder"
  assumes "\<And>x y. x \<in> set acc \<union> set xs \<Longrightarrow> y \<in> set acc \<union> set xs
             \<Longrightarrow> js_positive (cmp y x) = (key x < key y)"
    and "sorted_wrt (\<lambda>a b. key a \<le> key b) acc"
  shows "sorted_wrt (\<lambda>a b. key a \<le> key b) (foldl (\<lambda>acc x. insertSorted cmp x acc) acc xs)"
  using assms
proof (induction xs arbitrary: acc)
  case Nil
  then show ?case by simp
next
  case (Cons x xs)
  have "sorted_wrt (\<lambda>a b. key a \<le> key b) (insertSorted cmp x acc)"
    by (rule sorted_insertSorted) (use Cons.prems in auto)
  then show ?case
    using Cons.prems(1) by (auto intro!: Cons.IH simp: set_insertSorted)
qed

lemma sorted_jsSort:
  fixes key :: "'a \<Rightarrow> 'b::linorder"
  assumes "\<And>x y. x \<in> set xs \<Longrightarrow> y \<in> set xs \<Longrightarrow> js_positive (cmp y x) = (key x < key y)"
  shows "sorted_wrt (\<lambda>a b. key a \<le> key b) (jsSort cmp xs)"
  unfolding jsSort_def by (rule sorted_foldl_insertSorted) (use assms in auto)

lemma set_uniqueInOrder: "set (uniqueInOrder seen xs) = set xs - set seen"
  by (induction xs arbitrary: seen) auto

lemma distinct_uniqueInOrder: "distinct (uniqueInOrder seen xs)"
  by (induction xs arbitrary: seen) (auto simp: set_uniqueInOrder)

lemma set_sortedChapterNames:
  "set (sortedChapterNames cfg e) = set (getChapterFolders e) \<union> set (lockedChapters cfg)"
  by (simp add: sortedChapterNames_def set_jsSort set_uniqueInOrder)

lemma distinct_sortedChapterNames: "distinct (sortedChapterNames cfg e)"
  by (simp add: sortedChapterNames_def distinct_jsSort distinct_uniqueInOrder)

lemma set_getChapterFolders:
  "set (getChapterFolders e) =
     (if readdirThrows e then {}
      else {name. (name, True) \<in> set (dirEntries e) \<and> \<not> startsWithDot name
                  \<and> (isNumericChapter name \<or> isOneshotFolder name)})"
  by (auto simp: getChapterFolders_def set_jsSort image_iff)

lemma getChapterFolders_exists:
  "name \<in> set (getChapterFolders e) \<Longrightarrow> checkIfFolderExists e name"
  by (force simp: set_getChapterFolders checkIfFolderExists_def split: if_splits)

lemma getChapterFolders_valid:
  "name \<in> set (getChapterFolders e) \<Longrightarrow> isNumericChapter name \<or> isOneshotFolder name"
  by (auto simp: set_getChapterFolders split: if_splits)

section \<open>Facts about identities\<close>

lemma digitVal_nonneg: "0 \<le> digitVal c"
  by (simp add: digitVal_def split: option.splits)

lemma foldl_digits_nonneg: "0 \<le> acc \<Longrightarrow> 0 \<le> foldl (\<lambda>acc c. 10 * acc + digitVal c) acc s"
  by (induction s arbitrary: acc) (simp_all add: digitVal_nonneg)

lemma intOfDigits_nonneg: "0 \<le> intOfDigits s"
  by (simp add: intOfDigits_def foldl_digits_nonneg)

lemma exponentFactor_pos: "0 < exponentFactor r"
  by (auto simp: exponentFactor_def Let_def split: list.splits)

lemma digit_not_special:
  assumes "isDigit c"
  shows "\<not> isWhiteSpace c" and "c \<noteq> CHR ''-''" and "c \<noteq> CHR ''+''" and "c \<noteq> CHR ''I''"
    and "lowerChar c \<noteq> CHR ''o''"
  using assms by (auto simp: isDigit_def isWhiteSpace_def lowerChar_def)

lemma numeric_starts_with_digit:
  assumes "isNumericChapter n"
  obtains c cs where "n = c # cs" and "isDigit c"
proof -
  from assms have "takeWhile isDigit n \<noteq> []" by (simp add: isNumericChapter_def)
  then show ?thesis
    by (cases n) (auto intro: that split: if_splits)
qed

lemma numeric_not_oneshot: "isNumericChapter n \<Longrightarrow> \<not> isOneshotFolder n"
  by (erule numeric_starts_with_digit)
     (auto simp: isOneshotFolder_def toLowerCase_def digit_not_special)

lemma parseFloat_numeric:
  assumes "isNumericChapter n"
  shows "\<exists>v. 0 \<le> v \<and> parseFloat n = Fin v"
proof -
  from assms obtain c cs where n: "n = c # cs" and c: "isDigit c"
    by (rule numeric_starts_with_digit)
  have ws: "dropWhile isWhiteSpace n = n"
    using n c by (simp add: digit_not_special)
  have inf: "take 8 n \<noteq> ''Infinity''"
    using n c by (auto simp: digit_not_special)
  have ip: "takeWhile isDigit n \<noteq> []"
    using n c by simp
  have "0 \<le> exponentFactor r" for r
    using exponentFactor_pos [of r] by simp
  then show ?thesis
    using ws inf ip n c intOfDigits_nonneg
    by (simp add: parseFloat_def Let_def digit_not_special)
qed

lemma sortValue_oneshot: "isOneshotFolder s \<Longrightarrow> getChapterSortValue s = Fin (- 1)"
  by (simp add: getChapterSortValue_def)

lemma sortValue_numeric:
  "isNumericChapter n \<Longrightarrow> \<exists>v. 0 \<le> v \<and> getChapterSortValue n = Fin v \<and> getChapterNumber n = Fin v \<and> parseFloat n = Fin v"
  using parseFloat_numeric [of n]
  by (auto simp: getChapterSortValue_def getChapterNumber_def numeric_not_oneshot)

lemma sortValue_valid:
  "isNumericChapter n \<or> isOneshotFolder n \<Longrightarrow> getChapterSortValue n = Fin (sortKey n)"
  using sortValue_numeric [of n] sortValue_oneshot [of n]
  by (auto simp: sortKey_def)

lemma compareChapters_valid:
  assumes "isNumericChapter x \<or> isOneshotFolder x" and "isNumericChapter y \<or> isOneshotFolder y"
  shows "js_positive (compareChapters y x) = (sortKey x < sortKey y)"
  using sortValue_valid [OF assms(1)] sortValue_valid [OF assms(2)]
  by (simp add: compareChapters_def)

lemma sortKey_oneshot: "isOneshotFolder s \<Longrightarrow> sortKey s = - 1"
  by (simp add: sortKey_def sortValue_oneshot)

lemma sortKey_numeric: "isNumericChapter n \<Longrightarrow> 0 \<le> sortKey n"
  using sortValue_numeric [of n] by (auto simp: sortKey_def)

lemma sorted_valid_names:
  assumes "\<forall>n \<in> set xs. isNumericChapter n \<or> isOneshotFolder n"
  shows "sorted_wrt (\<lambda>a b. sortKey a \<le> sortKey b) (jsSort compareChapters xs)"
  by (rule sorted_jsSort) (use assms compareChapters_valid in auto)

lemma numeric_not_before_oneshot:
  assumes "sorted_wrt (\<lambda>a b. sortKey a \<le> sortKey b) xs"
    and "i < j" and "j < length xs" and "isNumericChapter (xs ! i)"
  shows "\<not> isOneshotFolder (xs ! j)"
proof
  assume "isOneshotFolder (xs ! j)"
  then have "sortKey (xs ! j) = - 1" by (rule sortKey_oneshot)
  moreover have "0 \<le> sortKey (xs ! i)" using assms(4) by (rule sortKey_numeric)
  moreover have "sortKey (xs ! i) \<le> sortKey (xs ! j)"
    using assms(1-3) by (simp add: sorted_wrt_iff_nth_less)
  ultimately show False by simp
qed

section \<open>Facts about the loop\<close>

lemma map_fst_replace:
  "map fst (map (\<lambda>kv. if fst kv = k then (k, v) else kv) obj) = map fst obj"
proof (induction obj)
  case Nil
  show ?case by simp
next
  case (Cons a obj)
  then show ?case by (cases "fst a = k") simp_all
qed

lemma map_fst_setProperty:
  "map fst (setProperty k v obj) = (if k \<in> set (map fst obj) then map fst obj else map fst obj @ [k])"
  unfolding setProperty_def using map_fst_replace [of k v obj] by simp

lemma keys_setProperty: "fst ` set (setProperty k v obj) = insert k (fst ` set obj)"
proof -
  have "set (map fst (setProperty k v obj)) = insert k (set (map fst obj))"
    unfolding map_fst_setProperty by auto
  then show ?thesis by simp
qed

lemma entries_setProperty:
  "kv \<in> set (setProperty k v obj) \<Longrightarrow> kv = (k, v) \<or> kv \<in> set obj"
  by (auto simp: setProperty_def split: if_splits)

lemma distinct_setProperty:
  "distinct (map fst obj) \<Longrightarrow> distinct (map fst (setProperty k v obj))"
  unfolding map_fst_setProperty by simp

lemma forEachChapter_keys:
  "fst ` set (fst (forEachChapter body ns chs t)) = fst ` set chs \<union> set ns"
  by (induction ns arbitrary: chs t) (auto simp: Let_def keys_setProperty)

lemma forEachChapter_distinct:
  "distinct (map fst chs) \<Longrightarrow> distinct (map fst (fst (forEachChapter body ns chs t)))"
  by (induction ns arbitrary: chs t) (auto simp: Let_def distinct_setProperty)

lemma forEachChapter_mono:
  assumes "\<And>k t. t \<le> snd (body k t)"
  shows "t \<le> snd (forEachChapter body ns chs t)"
proof (induction ns arbitrary: chs t)
  case Nil
  then show ?case by simp
next
  case (Cons n ns)
  have "t \<le> snd (body n t)" by (rule assms)
  also have "\<dots> \<le> snd (forEachChapter body ns (setProperty n (fst (body n t)) chs) (snd (body n t)))"
    by (rule Cons.IH)
  finally show ?case by (simp add: Let_def)
qed

lemma forEachChapter_entries:
  assumes mono: "\<And>k t. t \<le> snd (body k t)"
    and "(k, r) \<in> set (fst (forEachChapter body ns chs t))"
  shows "(k, r) \<in> set chs
         \<or> (k \<in> set ns
            \<and> (\<exists>t'. t \<le> t' \<and> snd (body k t') \<le> snd (forEachChapter body ns chs t)
                    \<and> r = fst (body k t')))"
  using assms(2)
proof (induction ns arbitrary: chs t)
  case Nil
  then show ?case by simp
next
  case (Cons n ns)
  let ?chs = "setProperty n (fst (body n t)) chs"
  let ?t = "snd (body n t)"
  have step: "forEachChapter body (n # ns) chs t = forEachChapter body ns ?chs ?t"
    by (simp add: Let_def)
  have le: "t \<le> ?t" by (rule mono)
  from Cons.prems have "(k, r) \<in> set (fst (forEachChapter body ns ?chs ?t))"
    by (simp add: Let_def)
  from Cons.IH [OF this]
  consider (old) "(k, r) \<in> set ?chs"
    | (new) t' where "k \<in> set ns" "?t \<le> t'"
        "snd (body k t') \<le> snd (forEachChapter body ns ?chs ?t)" "r = fst (body k t')"
    by blast
  then show ?case
  proof cases
    case old
    then consider "(k, r) = (n, fst (body n t))" | "(k, r) \<in> set chs"
      using entries_setProperty by fastforce
    then show ?thesis
    proof cases
      case 1
      have "?t \<le> snd (forEachChapter body ns ?chs ?t)"
        by (rule forEachChapter_mono) (rule mono)
      with 1 show ?thesis unfolding step by auto
    next
      case 2
      then show ?thesis by simp
    qed
  next
    case new
    then show ?thesis unfolding step using le by (auto intro: order_trans)
  qed
qed

lemma forEachChapter_cong:
  assumes "\<And>k t. k \<in> set ns \<Longrightarrow> body1 k t = body2 k t"
  shows "forEachChapter body1 ns chs t = forEachChapter body2 ns chs t"
  using assms by (induction ns arbitrary: chs t) (auto simp: Let_def)

lemma getWIBTimestamp_simps [simp]:
  "fst (getWIBTimestamp e t) = clock e t" "snd (getWIBTimestamp e t) = Suc t"
  by (simp_all add: getWIBTimestamp_def)

lemma uploadDateFromFolder_mono: "t \<le> snd (uploadDateFromFolder e n t)"
  by (simp add: uploadDateFromFolder_def split: exec_result.splits stat_result.splits)

lemma getUploadDate_mono: "t \<le> snd (getUploadDate e n l t)"
  by (simp add: getUploadDate_def uploadDateFromFolder_mono split: exec_result.splits)

lemma chapterUploadDate_mono: "t \<le> snd (chapterUploadDate cfg old e n t)"
  by (simp add: chapterUploadDate_def Let_def getUploadDate_mono split: option.splits)

lemma chapterEntry_v62_mono: "t \<le> snd (chapterEntry_v62 cfg old ift e n t)"
  by (simp add: chapterEntry_v62_def Let_def chapterUploadDate_mono)

lemma chapterEntry_v70_mono: "t \<le> snd (chapterEntry_v70 cfg old e n t)"
  by (simp add: chapterEntry_v70_def Let_def chapterUploadDate_mono)

lemma chapters_v62:
  "chapters (fst (generateChaptersData_v62 cfg old ift e t))
     = fst (forEachChapter (chapterEntry_v62 cfg old ift e) (sortedChapterNames cfg e) [] t)"
  by (simp add: generateChaptersData_v62_def Let_def)

lemma chapters_v70:
  "chapters (fst (generateChaptersData_v70 cfg old e t))
     = fst (forEachChapter (chapterEntry_v70 cfg old e) (sortedChapterNames cfg e) [] t)"
  by (simp add: generateChaptersData_v70_def Let_def)

lemma keys_v62:
  "fst ` set (chapters (fst (generateChaptersData_v62 cfg old ift e t)))
     = set (getChapterFolders e) \<union> set (lockedChapters cfg)"
  by (simp add: chapters_v62 forEachChapter_keys set_sortedChapterNames)

lemma keys_v70:
  "fst ` set (chapters (fst (generateChaptersData_v70 cfg old e t)))
     = set (getChapterFolders e) \<union> set (lockedChapters cfg)"
  by (simp add: chapters_v70 forEachChapter_keys set_sortedChapterNames)

lemma entry_v62:
  assumes "(name, r) \<in> set (chapters (fst (generateChaptersData_v62 cfg old ift e t)))"
  shows "\<exists>t'. t \<le> t' \<and> r = fst (chapterEntry_v62 cfg old ift e name t')"
  using forEachChapter_entries [of "chapterEntry_v62 cfg old ift e" name r "sortedChapterNames cfg e" "[]" t]
    assms chapterEntry_v62_mono
  by (auto simp: chapters_v62)

lemma entry_v70:
  assumes "(name, r) \<in> set (chapters (fst (generateChaptersData_v70 cfg old e t)))"
  shows "\<exists>t'. t \<le> t' \<and> r = fst (chapterEntry_v70 cfg old e name t')"
  using forEachChapter_entries [of "chapterEntry_v70 cfg old e" name r "sortedChapterNames cfg e" "[]" t]
    assms chapterEntry_v70_mono
  by (auto simp: chapters_v70)

section \<open>The sample run, evaluated\<close>

lemma sample_chapters_v62:
  "chapters (fst (generateChaptersData_v62 sampleConfig sampleCatalog False sampleEnv 0)) =
     [(''oneshot'', \<lparr> title = ''Oneshot'', chapterNumber = Fin 0, folder = ''oneshot'',
          uploadDate = ''2024-01-01T07:00:00+07:00'', totalPages = JNum 0, pages = JNum 0,
          locked = False, views = JNum 0 \<rparr>),
      (''2'', \<lparr> title = ''Chapter 2'', chapterNumber = Fin 2, folder = ''2'',
          uploadDate = ''2024-02-01T12:00:00+07:00'', totalPages = JNum 2, pages = JNum 2,
          locked = True, views = JNum 0 \<rparr>),
      (''3.5'', \<lparr> title = ''Chapter 3.5'', chapterNumber = Fin (7 / 2), folder = ''3.5'',
          uploadDate = ''2024-03-01T08:00:00+07:00'', totalPages = JNum 20, pages = JNum 20,
          locked = False, views = JNum 0 \<rparr>),
      (''4'', \<lparr> title = ''Chapter 4'', chapterNumber = Fin 4, folder = ''4'',
          uploadDate = ''2026-11-03T09:00:00+07:00'', totalPages = JNum 0, pages = JNum 0,
          locked = False, views = JNum 0 \<rparr>),
      (''5'', \<lparr> title = ''Chapter 5'', chapterNumber = Fin 5, folder = ''5'',
          uploadDate = ''2023-12-24T08:30:00+07:00'', totalPages = JNum 0, pages = JNum 0,
          locked = True, views = JNum 40 \<rparr>),
      (''6'', \<lparr> title = ''Chapter 6'', chapterNumber = Fin 6, folder = ''6'',
          uploadDate = ''2026-11-03T09:00:01+07:00'', totalPages = JNum 0, pages = JNum 0,
          locked = True, views = JNum 12 \<rparr>),
      (''9'', \<lparr> title = ''Chapter 9'', chapterNumber = Fin 9, folder = ''9'',
          uploadDate = ''2026-11-03T09:00:02+07:00'', totalPages = JNum 0, pages = JNum 0,
          locked = True, views = JNum 0 \<rparr>)]"
  by code_simp

lemma sample_chapters_v70:
  "chapters (fst (generateChaptersData_v70 sampleConfig sampleCatalog sampleEnv 0)) =
     chapters (fst (generateChaptersData_v62 sampleConfig sampleCatalog False sampleEnv 0))"
  by code_simp

lemma sample_last_v62:
  "lastChapterUpdate (fst (generateChaptersData_v62 sampleConfig sampleCatalog False sampleEnv 0))
     = ''2026-11-03T09:00:02+07:00''"
  "snd (generateChaptersData_v62 sampleConfig sampleCatalog False sampleEnv 0) = 3"
  by code_simp+

section \<open>Facts about the generated map\<close>

lemma set_objectValues: "set (objectValues obj) = snd ` set obj"
  by (auto simp: objectValues_def)

lemma length_objectValues: "length (objectValues obj) = length obj"
  by (simp add: objectValues_def sum_length_filter_compl)

lemma lastChapterUpdateOf_mono: "t \<le> snd (lastChapterUpdateOf e chs t)"
  by (simp add: lastChapterUpdateOf_def Let_def split: list.splits)

lemma lastChapterUpdateOf_empty: "lastChapterUpdateOf e [] t = (clock e t, Suc t)"
  by (simp add: lastChapterUpdateOf_def objectValues_def jsSort_def getWIBTimestamp_def)

lemma ticks_v62:
  "snd (forEachChapter (chapterEntry_v62 cfg old ift e) (sortedChapterNames cfg e) [] t)
     \<le> snd (generateChaptersData_v62 cfg old ift e t)"
  by (simp add: generateChaptersData_v62_def Let_def lastChapterUpdateOf_mono)

lemma ticks_v70:
  "snd (forEachChapter (chapterEntry_v70 cfg old e) (sortedChapterNames cfg e) [] t)
     \<le> snd (generateChaptersData_v70 cfg old e t)"
  by (simp add: generateChaptersData_v70_def Let_def lastChapterUpdateOf_mono)

lemma entry_bounded_v62:
  assumes "(name, r) \<in> set (chapters (fst (generateChaptersData_v62 cfg old ift e t)))"
  shows "\<exists>t'. t \<le> t' \<and> r = fst (chapterEntry_v62 cfg old ift e name t')
              \<and> snd (chapterEntry_v62 cfg old ift e name t')
                  \<le> snd (generateChaptersData_v62 cfg old ift e t)"
proof -
  from assms obtain t' where "t \<le> t'" "r = fst (chapterEntry_v62 cfg old ift e name t')"
    "snd (chapterEntry_v62 cfg old ift e name t')
       \<le> snd (forEachChapter (chapterEntry_v62 cfg old ift e) (sortedChapterNames cfg e) [] t)"
    using forEachChapter_entries [of "chapterEntry_v62 cfg old ift e" name r
        "sortedChapterNames cfg e" "[]" t] chapterEntry_v62_mono
    by (auto simp: chapters_v62)
  then show ?thesis using ticks_v62 [of cfg old ift e t] by (auto intro: order_trans)
qed

lemma entry_bounded_v70:
  assumes "(name, r) \<in> set (chapters (fst (generateChaptersData_v70 cfg old e t)))"
  shows "\<exists>t'. t \<le> t' \<and> r = fst (chapterEntry_v70 cfg old e name t')
              \<and> snd (chapterEntry_v70 cfg old e name t')
                  \<le> snd (generateChaptersData_v70 cfg old e t)"
proof -
  from assms obtain t' where "t \<le> t'" "r = fst (chapterEntry_v70 cfg old e name t')"
    "snd (chapterEntry_v70 cfg old e name t')
       \<le> snd (forEachChapter (chapterEntry_v70 cfg old e) (sortedChapterNames cfg e) [] t)"
    using forEachChapter_entries [of "chapterEntry_v70 cfg old e" name r
        "sortedChapterNames cfg e" "[]" t] chapterEntry_v70_mono
    by (auto simp: chapters_v70)
  then show ?thesis using ticks_v70 [of cfg old e t] by (auto intro: order_trans)
qed

text \<open>The fields that both versions compute in the same way.\<close>

lemma commonFields_v62:
  assumes "(name, r) \<in> set (chapters (fst (generateChaptersData_v62 cfg old ift e t)))"
  shows "locked r = (name \<in> set (lockedChapters cfg))
     \<and> totalPages r = (if checkIfFolderExists e name then getTotalPagesFromManifest e name else JNum 0)
     \<and> pages r = totalPages r
     \<and> title r = getChapterTitle name
     \<and> chapterNumber r = getChapterNumber name
     \<and> folder r = name
     \<and> (\<exists>t'. t \<le> t' \<and> uploadDate r = fst (chapterUploadDate cfg old e name t'))"
proof -
  from entry_v62 [OF assms] obtain t' where "t \<le> t'"
    and r: "r = fst (chapterEntry_v62 cfg old ift e name t')" by blast
  have "uploadDate r = fst (chapterUploadDate cfg old e name t')"
    by (simp add: r chapterEntry_v62_def Let_def)
  with \<open>t \<le> t'\<close> have "\<exists>t'. t \<le> t' \<and> uploadDate r = fst (chapterUploadDate cfg old e name t')"
    by blast
  then show ?thesis
    by (simp add: r chapterEntry_v62_def Let_def)
qed

lemma commonFields_v70:
  assumes "(name, r) \<in> set (chapters (fst (generateChaptersData_v70 cfg old e t)))"
  shows "locked r = (name \<in> set (lockedChapters cfg))
     \<and> totalPages r = (if checkIfFolderExists e name then getTotalPagesFromManifest e name else JNum 0)
     \<and> pages r = totalPages r
     \<and> title r = getChapterTitle name
     \<and> chapterNumber r = getChapterNumber name
     \<and> folder r = name
     \<and> (\<exists>t'. t \<le> t' \<and> uploadDate r = fst (chapterUploadDate cfg old e name t'))"
proof -
  from entry_v70 [OF assms] obtain t' where "t \<le> t'"
    and r: "r = fst (chapterEntry_v70 cfg old e name t')" by blast
  have "uploadDate r = fst (chapterUploadDate cfg old e name t')"
    by (simp add: r chapterEntry_v70_def Let_def)
  with \<open>t \<le> t'\<close> have "\<exists>t'. t \<le> t' \<and> uploadDate r = fst (chapterUploadDate cfg old e name t')"
    by blast
  then show ?thesis
    by (simp add: r chapterEntry_v70_def Let_def)
qed

lemma entry_fields:
  assumes "(name, r) \<in> set (chapters (fst (generateChaptersData_v62 cfg old ift e t)))
           \<or> (name, r) \<in> set (chapters (fst (generateChaptersData_v70 cfg old e t)))"
  shows "locked r = (name \<in> set (lockedChapters cfg))"
    and "totalPages r = (if checkIfFolderExists e name then getTotalPagesFromManifest e name else JNum 0)"
    and "pages r = totalPages r"
    and "title r = getChapterTitle name"
    and "chapterNumber r = getChapterNumber name"
    and "folder r = name"
    and "\<exists>t'. t \<le> t' \<and> uploadDate r = fst (chapterUploadDate cfg old e name t')"
  using assms commonFields_v62 [of name r cfg old ift e t] commonFields_v70 [of name r cfg old e t]
  by blast+

lemma entry_keys:
  assumes "(name, r) \<in> set (chapters (fst (generateChaptersData_v62 cfg old ift e t)))
           \<or> (name, r) \<in> set (chapters (fst (generateChaptersData_v70 cfg old e t)))"
  shows "name \<in> set (getChapterFolders e) \<union> set (lockedChapters cfg)"
proof -
  from assms have "name \<in> fst ` set (chapters (fst (generateChaptersData_v62 cfg old ift e t)))
      \<or> name \<in> fst ` set (chapters (fst (generateChaptersData_v70 cfg old e t)))"
    by force
  then show ?thesis unfolding keys_v62 keys_v70 by simp
qed


section \<open>The lock flag\<close>

text \<open>
  Claim C2. The generated chapter map, of version 6.2 (first run or not) and of version
  7.0, holds exactly the enumerated folders and the configured locked identities, and for
  every identity in it the \<open>locked\<close> flag of the record equals membership of the
  identity in the configured \<open>lockedChapters\<close> list: every configured identity has a
  locked record, and every enumerated folder that is not configured has a record that is
  not locked. The previous catalog and the storage are arbitrary, so neither the previous
  flag nor the presence of the folder has any influence, and the identity may be the
  oneshot or a numbered one.
\<close>

theorem locked_iff_in_config:
  assumes "G = fst (generateChaptersData_v62 cfg oldMangaData firstTime e t)
           \<or> G = fst (generateChaptersData_v70 cfg oldMangaData e t)"
  shows "fst ` set (chapters G) = set (getChapterFolders e) \<union> set (lockedChapters cfg)
       \<and> (\<forall>(name, r) \<in> set (chapters G). locked r = (name \<in> set (lockedChapters cfg)))
       \<and> (\<forall>name \<in> set (lockedChapters cfg). \<exists>r. (name, r) \<in> set (chapters G) \<and> locked r)
       \<and> (\<forall>name \<in> set (getChapterFolders e). name \<notin> set (lockedChapters cfg)
            \<longrightarrow> (\<exists>r. (name, r) \<in> set (chapters G) \<and> \<not> locked r))"
proof -
  have keys: "fst ` set (chapters G) = set (getChapterFolders e) \<union> set (lockedChapters cfg)"
    using assms keys_v62 keys_v70 by metis
  have flag: "locked r = (name \<in> set (lockedChapters cfg))" if "(name, r) \<in> set (chapters G)"
    for name r
  proof -
    from that assms
    have "(name, r) \<in> set (chapters (fst (generateChaptersData_v62 cfg oldMangaData firstTime e t)))
        \<or> (name, r) \<in> set (chapters (fst (generateChaptersData_v70 cfg oldMangaData e t)))"
      by auto
    then show ?thesis by (rule entry_fields(1))
  qed
  have present: "\<exists>r. (name, r) \<in> set (chapters G)"
    if "name \<in> set (getChapterFolders e) \<union> set (lockedChapters cfg)" for name
  proof -
    from that keys have "name \<in> fst ` set (chapters G)" by simp
    then show ?thesis by force
  qed
  have a: "\<forall>(name, r) \<in> set (chapters G). locked r = (name \<in> set (lockedChapters cfg))"
    using flag by auto
  have b: "\<forall>name \<in> set (lockedChapters cfg). \<exists>r. (name, r) \<in> set (chapters G) \<and> locked r"
  proof
    fix name assume n: "name \<in> set (lockedChapters cfg)"
    then obtain r where "(name, r) \<in> set (chapters G)" using present by blast
    with n flag show "\<exists>r. (name, r) \<in> set (chapters G) \<and> locked r" by blast
  qed
  have c: "\<forall>name \<in> set (getChapterFolders e). name \<notin> set (lockedChapters cfg)
            \<longrightarrow> (\<exists>r. (name, r) \<in> set (chapters G) \<and> \<not> locked r)"
  proof (intro ballI impI)
    fix name assume n: "name \<in> set (getChapterFolders e)" and u: "name \<notin> set (lockedChapters cfg)"
    then obtain r where "(name, r) \<in> set (chapters G)" using present by blast
    with u flag show "\<exists>r. (name, r) \<in> set (chapters G) \<and> \<not> locked r" by blast
  qed
  from keys a b c show ?thesis by blast
qed

theorem locked_iff_in_config_witness:
  "fst ` set (chapters (fst (generateChaptersData_v62 sampleConfig sampleCatalog False sampleEnv 0)))
     = {''oneshot'', ''2'', ''3.5'', ''4'', ''5'', ''6'', ''9''}
   \<and> lockedChapters sampleConfig = [''5'', ''6'', ''9'', ''2'']
   \<and> (''5'', \<lparr> title = ''Chapter 5'', chapterNumber = Fin 5, folder = ''5'',
          uploadDate = ''2023-12-24T08:30:00+07:00'', totalPages = JNum 0, pages = JNum 0,
          locked = True, views = JNum 40 \<rparr>)
       \<in> set (chapters (fst (generateChaptersData_v62 sampleConfig sampleCatalog False sampleEnv 0)))
   \<and> (''2'', \<lparr> title = ''Chapter 2'', chapterNumber = Fin 2, folder = ''2'',
          uploadDate = ''2024-02-01T12:00:00+07:00'', totalPages = JNum 2, pages = JNum 2,
          locked = True, views = JNum 0 \<rparr>)
       \<in> set (chapters (fst (generateChaptersData_v62 sampleConfig sampleCatalog False sampleEnv 0)))
   \<and> (''oneshot'', \<lparr> title = ''Oneshot'', chapterNumber = Fin 0, folder = ''oneshot'',
          uploadDate = ''2024-01-01T07:00:00+07:00'', totalPages = JNum 0, pages = JNum 0,
          locked = False, views = JNum 0 \<rparr>)
       \<in> set (chapters (fst (generateChaptersData_v62 sampleConfig sampleCatalog False sampleEnv 0)))
   \<and> map (\<lambda>kv. (fst kv, locked (snd kv)))
         (chapters (fst (generateChaptersData_v70 sampleConfig sampleCatalog sampleEnv 0)))
       = [(''oneshot'', False), (''2'', True), (''3.5'', False), (''4'', False),
          (''5'', True), (''6'', True), (''9'', True)]"
proof -
  let ?G = "fst (generateChaptersData_v62 sampleConfig sampleCatalog False sampleEnv 0)"
  let ?r5 = "\<lparr> title = ''Chapter 5'', chapterNumber = Fin 5, folder = ''5'',
            uploadDate = ''2023-12-24T08:30:00+07:00'', totalPages = JNum 0, pages = JNum 0,
            locked = True, views = JNum 40 \<rparr>"
  let ?r2 = "\<lparr> title = ''Chapter 2'', chapterNumber = Fin 2, folder = ''2'',
          uploadDate = ''2024-02-01T12:00:00+07:00'', totalPages = JNum 2, pages = JNum 2,
          locked = True, views = JNum 0 \<rparr>"
  let ?r0 = "\<lparr> title = ''Oneshot'', chapterNumber = Fin 0, folder = ''oneshot'',
          uploadDate = ''2024-01-01T07:00:00+07:00'', totalPages = JNum 0, pages = JNum 0,
          locked = False, views = JNum 0 \<rparr>"
  have run: "?G = ?G \<or> ?G = fst (generateChaptersData_v70 sampleConfig sampleCatalog sampleEnv 0)"
    by simp
  note inst = locked_iff_in_config [OF run]
  have gf: "getChapterFolders sampleEnv = [''oneshot'', ''2'', ''3.5'', ''4'']"
    by code_simp
  have k: "set (getChapterFolders sampleEnv) \<union> set (lockedChapters sampleConfig)
       = {''oneshot'', ''2'', ''3.5'', ''4'', ''5'', ''6'', ''9''}"
    by (auto simp: gf sampleConfig_def)
  have keys: "fst ` set (chapters ?G) = {''oneshot'', ''2'', ''3.5'', ''4'', ''5'', ''6'', ''9''}"
    using inst k by simp
  have cfg: "lockedChapters sampleConfig = [''5'', ''6'', ''9'', ''2'']"
    by (simp add: sampleConfig_def)
  have m5: "(''5'', ?r5) \<in> set (chapters ?G)" and m2: "(''2'', ?r2) \<in> set (chapters ?G)"
    and m0: "(''oneshot'', ?r0) \<in> set (chapters ?G)"
    unfolding sample_chapters_v62 by simp_all
  have flags: "locked ?r5 = (''5'' \<in> set (lockedChapters sampleConfig))"
    "locked ?r2 = (''2'' \<in> set (lockedChapters sampleConfig))"
    "locked ?r0 = (''oneshot'' \<in> set (lockedChapters sampleConfig))"
    using inst m5 m2 m0 by blast+
  have v70: "map (\<lambda>kv. (fst kv, locked (snd kv)))
         (chapters (fst (generateChaptersData_v70 sampleConfig sampleCatalog sampleEnv 0)))
       = [(''oneshot'', False), (''2'', True), (''3.5'', False), (''4'', False),
          (''5'', True), (''6'', True), (''9'', True)]"
    unfolding sample_chapters_v70 sample_chapters_v62 by simp
  from keys cfg m5 m2 m0 flags v70 show ?thesis by blast
qed

text \<open>
  Claim C10. Every record of the generated chapter map that is not locked belongs to an
  identity that was enumerated among the storage folders, and so its folder exists: an
  identity enters the map only from the enumerated folders or from the locked list.
\<close>

theorem unlocked_has_folder:
  assumes "(name, r) \<in> set (chapters (fst (generateChaptersData_v62 cfg oldMangaData firstTime e t)))
           \<or> (name, r) \<in> set (chapters (fst (generateChaptersData_v70 cfg oldMangaData e t)))"
    and "\<not> locked r"
  shows "name \<in> set (getChapterFolders e) \<and> checkIfFolderExists e name"
proof -
  have "name \<notin> set (lockedChapters cfg)"
    using entry_fields(1) [OF assms(1)] assms(2) by simp
  then have "name \<in> set (getChapterFolders e)"
    using entry_keys [OF assms(1)] by simp
  then show ?thesis by (simp add: getChapterFolders_exists)
qed


theorem unlocked_has_folder_witness:
  "(''4'', \<lparr> title = ''Chapter 4'', chapterNumber = Fin 4, folder = ''4'',
          uploadDate = ''2026-11-03T09:00:00+07:00'', totalPages = JNum 0, pages = JNum 0,
          locked = False, views = JNum 0 \<rparr>)
     \<in> set (chapters (fst (generateChaptersData_v62 sampleConfig sampleCatalog False sampleEnv 0)))
   \<and> ''4'' \<in> set (getChapterFolders sampleEnv) \<and> checkIfFolderExists sampleEnv ''4''"
proof -
  let ?r4 = "\<lparr> title = ''Chapter 4'', chapterNumber = Fin 4, folder = ''4'',
          uploadDate = ''2026-11-03T09:00:00+07:00'', totalPages = JNum 0, pages = JNum 0,
          locked = False, views = JNum 0 \<rparr>"
  have m: "(''4'', ?r4)
      \<in> set (chapters (fst (generateChaptersData_v62 sampleConfig sampleCatalog False sampleEnv 0)))"
    unfolding sample_chapters_v62 by simp
  have u: "\<not> locked ?r4" by simp
  show ?thesis using unlocked_has_folder [OF disjI1 [OF m] u] m by blast
qed

section \<open>The two versions\<close>

lemma views_agree:
  assumes "\<forall>name oc. oldChapterOf old name = Some oc \<longrightarrow> (\<exists>n. 0 \<le> n \<and> oc_views oc = JNum n)"
  shows "getOldChapterViews_v62 name old = getOldChapterViews_v70 name old"
proof (cases "oldChapterOf old name")
  case None
  then show ?thesis
    by (auto simp: oldChapterOf_def getOldChapterViews_v62_def getOldChapterViews_v70_def
        split: option.splits)
next
  case (Some oc)
  with assms obtain n where "oc_views oc = JNum n" by blast
  with Some show ?thesis
    by (auto simp: oldChapterOf_def getOldChapterViews_v62_def getOldChapterViews_v70_def
        split: option.splits)
qed

lemma chapterEntry_agree:
  assumes "\<forall>name oc. oldChapterOf old name = Some oc \<longrightarrow> (\<exists>n. 0 \<le> n \<and> oc_views oc = JNum n)"
  shows "chapterEntry_v62 cfg old False e name t = chapterEntry_v70 cfg old e name t"
  by (simp add: chapterEntry_v62_def chapterEntry_v70_def views_agree [OF assms])

text \<open>
  Claim C9. When every chapter of the previous catalog has a non-negative integer as its
  views, version 6.2 called with \<open>isFirstTime = false\<close> and version 7.0 return the
  same chapters map and the same \<open>lastChapterUpdate\<close> (and read the clock equally
  often), for every configuration and every environment.
\<close>

theorem versions_agree:
  assumes "\<forall>name oc. oldChapterOf oldMangaData name = Some oc
             \<longrightarrow> (\<exists>n. 0 \<le> n \<and> oc_views oc = JNum n)"
  shows "generateChaptersData_v62 cfg oldMangaData False e t
           = generateChaptersData_v70 cfg oldMangaData e t"
proof -
  have "forEachChapter (chapterEntry_v62 cfg oldMangaData False e) (sortedChapterNames cfg e) [] t
      = forEachChapter (chapterEntry_v70 cfg oldMangaData e) (sortedChapterNames cfg e) [] t"
    by (rule forEachChapter_cong) (rule chapterEntry_agree [OF assms])
  then show ?thesis
    by (simp add: generateChaptersData_v62_def generateChaptersData_v70_def)
qed

lemma sampleCatalog_views:
  "\<forall>name oc. oldChapterOf sampleCatalog name = Some oc \<longrightarrow> (\<exists>n. 0 \<le> n \<and> oc_views oc = JNum n)"
  by (auto simp: oldChapterOf_def sampleCatalog_def split: if_splits)

theorem versions_agree_witness:
  "generateChaptersData_v62 sampleConfig sampleCatalog False sampleEnv 0
     = generateChaptersData_v70 sampleConfig sampleCatalog sampleEnv 0
   \<and> lastChapterUpdate (fst (generateChaptersData_v70 sampleConfig sampleCatalog sampleEnv 0))
       = ''2026-11-03T09:00:02+07:00''"
  using versions_agree [OF sampleCatalog_views, of sampleConfig sampleEnv 0] sample_last_v62(1)
  by simp

text \<open>
  Without the condition on the views the versions differ: stored views \<^verbatim>\<open>null\<close> become
  0 in version 6.2 and stay \<^verbatim>\<open>null\<close> in version 7.0.
\<close>

lemma versions_differ_on_null_views:
  "getOldChapterViews_v62 ''1''
       (Some \<lparr> old_manga = None,
               old_chapters = Some [(''1'', \<lparr> oc_locked = False, oc_uploadDate = None,
                                               oc_views = JNull \<rparr>)] \<rparr>) = JNum 0
   \<and> getOldChapterViews_v70 ''1''
       (Some \<lparr> old_manga = None,
               old_chapters = Some [(''1'', \<lparr> oc_locked = False, oc_uploadDate = None,
                                               oc_views = JNull \<rparr>)] \<rparr>) = JNull"
  by (simp add: getOldChapterViews_v62_def getOldChapterViews_v70_def)

section \<open>Page counts\<close>

lemma manifest_missing:
  "manifestFile e name = NoManifestFile \<or> manifestFile e name = ManifestUnreadable
     \<Longrightarrow> getTotalPagesFromManifest e name = JNum 0"
  by (auto simp: getTotalPagesFromManifest_def loadManifest_def)

lemma manifest_parsed:
  assumes "manifestFile e name = ManifestParsed mv"
  shows "getTotalPagesFromManifest e name =
     (if \<not> truthy mv then JNum 0
      else if truthy (getProp mv ''total_pages'') then getProp mv ''total_pages''
      else if truthy (getProp mv ''totalPages'') then getProp mv ''totalPages''
      else if truthy (getProp mv ''pages'') then getProp (getProp mv ''pages'') ''length''
      else JNum 0)"
  using assms by (simp add: getTotalPagesFromManifest_def loadManifest_def jsOr_def)

text \<open>
  Claim C7. For every identity of the generated map (version 6.2 or 7.0) the page count
  \<open>totalPages\<close> is 0 when the folder is absent; when the folder exists it is what the
  manifest gives: 0 for a missing or unreadable manifest, otherwise the first truthy one of
  \<open>total_pages\<close>, \<open>totalPages\<close> and the length of \<open>pages\<close>, and 0 when there
  is none. \<open>pages\<close> repeats the count. The run does not abort: the map has a record for
  every enumerated folder and every configured locked identity.
\<close>

theorem page_count_from_manifest:
  assumes "(name, r) \<in> set (chapters (fst (generateChaptersData_v62 cfg oldMangaData firstTime e t)))
           \<or> (name, r) \<in> set (chapters (fst (generateChaptersData_v70 cfg oldMangaData e t)))"
  shows "(\<not> checkIfFolderExists e name \<longrightarrow> totalPages r = JNum 0)
       \<and> (checkIfFolderExists e name \<longrightarrow> totalPages r = getTotalPagesFromManifest e name)
       \<and> (manifestFile e name = NoManifestFile \<or> manifestFile e name = ManifestUnreadable
            \<longrightarrow> totalPages r = JNum 0)
       \<and> (checkIfFolderExists e name \<and> manifestFile e name = ManifestParsed mv \<longrightarrow>
            totalPages r =
              (if \<not> truthy mv then JNum 0
               else if truthy (getProp mv ''total_pages'') then getProp mv ''total_pages''
               else if truthy (getProp mv ''totalPages'') then getProp mv ''totalPages''
               else if truthy (getProp mv ''pages'') then getProp (getProp mv ''pages'') ''length''
               else JNum 0))
       \<and> (checkIfFolderExists e name \<and> manifestFile e name = ManifestParsed (JObj [(''pages'', JArr ps)])
            \<longrightarrow> totalPages r = JNum (int (length ps)))
       \<and> pages r = totalPages r
       \<and> fst ` set (chapters (fst (generateChaptersData_v62 cfg oldMangaData firstTime e t)))
           = set (getChapterFolders e) \<union> set (lockedChapters cfg)
       \<and> fst ` set (chapters (fst (generateChaptersData_v70 cfg oldMangaData e t)))
           = set (getChapterFolders e) \<union> set (lockedChapters cfg)"
proof -
  have tp: "totalPages r
      = (if checkIfFolderExists e name then getTotalPagesFromManifest e name else JNum 0)"
    and pg: "pages r = totalPages r"
    using entry_fields(2,3) [OF assms] by blast+
  have a: "\<not> checkIfFolderExists e name \<longrightarrow> totalPages r = JNum 0"
    using tp by simp
  have b: "checkIfFolderExists e name \<longrightarrow> totalPages r = getTotalPagesFromManifest e name"
    using tp by simp
  have c: "manifestFile e name = NoManifestFile \<or> manifestFile e name = ManifestUnreadable
            \<longrightarrow> totalPages r = JNum 0"
    using tp manifest_missing [of e name] by auto
  have d: "checkIfFolderExists e name \<and> manifestFile e name = ManifestParsed mv \<longrightarrow>
            totalPages r =
              (if \<not> truthy mv then JNum 0
               else if truthy (getProp mv ''total_pages'') then getProp mv ''total_pages''
               else if truthy (getProp mv ''totalPages'') then getProp mv ''totalPages''
               else if truthy (getProp mv ''pages'') then getProp (getProp mv ''pages'') ''length''
               else JNum 0)"
    using tp manifest_parsed [of e name mv] by simp
  have f: "checkIfFolderExists e name \<and> manifestFile e name = ManifestParsed (JObj [(''pages'', JArr ps)])
            \<longrightarrow> totalPages r = JNum (int (length ps))"
    using tp manifest_parsed [of e name "JObj [(''pages'', JArr ps)]"] by simp
  from a b c d f pg keys_v62 [of cfg oldMangaData firstTime e t] keys_v70 [of cfg oldMangaData e t]
  show ?thesis by blast
qed

theorem page_count_from_manifest_witness:
  "(''3.5'', \<lparr> title = ''Chapter 3.5'', chapterNumber = Fin (7 / 2), folder = ''3.5'',
          uploadDate = ''2024-03-01T08:00:00+07:00'', totalPages = JNum 20, pages = JNum 20,
          locked = False, views = JNum 0 \<rparr>)
     \<in> set (chapters (fst (generateChaptersData_v62 sampleConfig sampleCatalog False sampleEnv 0)))
   \<and> checkIfFolderExists sampleEnv ''3.5''
   \<and> manifestFile sampleEnv ''3.5'' = ManifestParsed (JObj [(''total_pages'', JNum 20)])
   \<and> getTotalPagesFromManifest sampleEnv ''3.5'' = JNum 20
   \<and> (''4'', \<lparr> title = ''Chapter 4'', chapterNumber = Fin 4, folder = ''4'',
          uploadDate = ''2026-11-03T09:00:00+07:00'', totalPages = JNum 0, pages = JNum 0,
          locked = False, views = JNum 0 \<rparr>)
     \<in> set (chapters (fst (generateChaptersData_v62 sampleConfig sampleCatalog False sampleEnv 0)))
   \<and> checkIfFolderExists sampleEnv ''4''
   \<and> manifestFile sampleEnv ''4'' = NoManifestFile
   \<and> getTotalPagesFromManifest sampleEnv ''4'' = JNum 0
   \<and> (''2'', \<lparr> title = ''Chapter 2'', chapterNumber = Fin 2, folder = ''2'',
          uploadDate = ''2024-02-01T12:00:00+07:00'', totalPages = JNum 2, pages = JNum 2,
          locked = True, views = JNum 0 \<rparr>)
     \<in> set (chapters (fst (generateChaptersData_v62 sampleConfig sampleCatalog False sampleEnv 0)))
   \<and> checkIfFolderExists sampleEnv ''2''
   \<and> manifestFile sampleEnv ''2'' = ManifestParsed (JObj [(''pages'', JArr [JStr ''a'', JStr ''b''])])
   \<and> (''5'', \<lparr> title = ''Chapter 5'', chapterNumber = Fin 5, folder = ''5'',
          uploadDate = ''2023-12-24T08:30:00+07:00'', totalPages = JNum 0, pages = JNum 0,
          locked = True, views = JNum 40 \<rparr>)
     \<in> set (chapters (fst (generateChaptersData_v62 sampleConfig sampleCatalog False sampleEnv 0)))
   \<and> \<not> checkIfFolderExists sampleEnv ''5''"
proof -
  let ?G = "chapters (fst (generateChaptersData_v62 sampleConfig sampleCatalog False sampleEnv 0))"
  let ?r35 = "\<lparr> title = ''Chapter 3.5'', chapterNumber = Fin (7 / 2), folder = ''3.5'',
          uploadDate = ''2024-03-01T08:00:00+07:00'', totalPages = JNum 20, pages = JNum 20,
          locked = False, views = JNum 0 \<rparr>"
  let ?r4 = "\<lparr> title = ''Chapter 4'', chapterNumber = Fin 4, folder = ''4'',
          uploadDate = ''2026-11-03T09:00:00+07:00'', totalPages = JNum 0, pages = JNum 0,
          locked = False, views = JNum 0 \<rparr>"
  let ?r2 = "\<lparr> title = ''Chapter 2'', chapterNumber = Fin 2, folder = ''2'',
          uploadDate = ''2024-02-01T12:00:00+07:00'', totalPages = JNum 2, pages = JNum 2,
          locked = True, views = JNum 0 \<rparr>"
  let ?r5 = "\<lparr> title = ''Chapter 5'', chapterNumber = Fin 5, folder = ''5'',
          uploadDate = ''2023-12-24T08:30:00+07:00'', totalPages = JNum 0, pages = JNum 0,
          locked = True, views = JNum 40 \<rparr>"
  have m35: "(''3.5'', ?r35) \<in> set ?G" and m4: "(''4'', ?r4) \<in> set ?G"
    and m2: "(''2'', ?r2) \<in> set ?G" and m5: "(''5'', ?r5) \<in> set ?G"
    unfolding sample_chapters_v62 by simp_all
  have x35: "checkIfFolderExists sampleEnv ''3.5''" and x4: "checkIfFolderExists sampleEnv ''4''"
    and x2: "checkIfFolderExists sampleEnv ''2''" and x5: "\<not> checkIfFolderExists sampleEnv ''5''"
    by (simp_all add: checkIfFolderExists_def sampleEnv_def)
  have f35: "manifestFile sampleEnv ''3.5'' = ManifestParsed (JObj [(''total_pages'', JNum 20)])"
    and f4: "manifestFile sampleEnv ''4'' = NoManifestFile"
    and f2: "manifestFile sampleEnv ''2'' = ManifestParsed (JObj [(''pages'', JArr [JStr ''a'', JStr ''b''])])"
    by (simp_all add: sampleEnv_def)
  have a: "getTotalPagesFromManifest sampleEnv ''3.5'' = JNum 20"
    using page_count_from_manifest [OF disjI1 [OF m35], of "JObj [(''total_pages'', JNum 20)]"]
      x35 f35 by simp
  have b: "getTotalPagesFromManifest sampleEnv ''4'' = JNum 0"
    using page_count_from_manifest [OF disjI1 [OF m4]] x4 f4 by simp
  have c: "totalPages ?r2 = JNum (int (length [JStr ''a'', JStr ''b'']))"
    using page_count_from_manifest [OF disjI1 [OF m2], of _ "[JStr ''a'', JStr ''b'']"] x2 f2
    by blast
  have d: "totalPages ?r5 = JNum 0"
    using page_count_from_manifest [OF disjI1 [OF m5]] x5 by blast
  from a b c d m35 m4 m2 m5 x35 x4 x2 x5 f35 f4 f2 show ?thesis by simp
qed

section \<open>Identities and their order\<close>

lemma oneshot_vs_numeric:
  assumes "isOneshotFolder s" and "isNumericChapter n"
  shows "js_negative (compareChapters s n)" and "js_positive (compareChapters n s)"
proof -
  from sortValue_numeric [OF assms(2)] obtain v where "0 \<le> v" "getChapterSortValue n = Fin v"
    by blast
  then show "js_negative (compareChapters s n)" and "js_positive (compareChapters n s)"
    using sortValue_oneshot [OF assms(1)] by (simp_all add: compareChapters_def)
qed

lemma getChapterFolders_sorted:
  "sorted_wrt (\<lambda>a b. sortKey a \<le> sortKey b) (getChapterFolders e)"
proof (cases "readdirThrows e")
  case True
  then show ?thesis by (simp add: getChapterFolders_def)
next
  case False
  then show ?thesis
    unfolding getChapterFolders_def by (simp add: sorted_valid_names)
qed

lemma sortedChapterNames_sorted:
  assumes "\<forall>x \<in> set (lockedChapters cfg). isNumericChapter x \<or> isOneshotFolder x"
  shows "sorted_wrt (\<lambda>a b. sortKey a \<le> sortKey b) (sortedChapterNames cfg e)"
  unfolding sortedChapterNames_def
  by (rule sorted_valid_names) (use assms getChapterFolders_valid in \<open>auto simp: set_uniqueInOrder\<close>)

text \<open>
  Claim C6. The oneshot identity (any spelling of \<open>oneshot\<close>, whatever the case of
  its letters) has sort value \<open>-1\<close>, chapter number 0 and the title \<open>Oneshot\<close>.
  A numbered identity has its parsed value, which is not negative, as sort value and as
  chapter number, and the title \<open>Chapter\<close> followed by the raw identifier. So the
  comparator puts the oneshot before every numbered identity, and in the enumerated
  folders no numbered identity stands before a oneshot; the same holds for the sorted
  working list when every configured locked identity is a oneshot or a number.
\<close>

theorem oneshot_sorts_first:
  "(isOneshotFolder s \<longrightarrow>
      getChapterSortValue s = Fin (- 1) \<and> getChapterNumber s = Fin 0
      \<and> getChapterTitle s = ''Oneshot'')
   \<and> (isNumericChapter n \<longrightarrow>
        (\<exists>v. 0 \<le> v \<and> parseFloat n = Fin v)
        \<and> getChapterSortValue n = parseFloat n \<and> getChapterNumber n = parseFloat n
        \<and> getChapterTitle n = ''Chapter '' @ n)
   \<and> (isOneshotFolder s \<and> isNumericChapter n \<longrightarrow>
        js_negative (compareChapters s n) \<and> js_positive (compareChapters n s))
   \<and> (i < j \<and> j < length (getChapterFolders e) \<and> isNumericChapter (getChapterFolders e ! i)
        \<longrightarrow> \<not> isOneshotFolder (getChapterFolders e ! j))
   \<and> ((\<forall>x \<in> set (lockedChapters cfg). isNumericChapter x \<or> isOneshotFolder x)
        \<and> i < j \<and> j < length (sortedChapterNames cfg e)
        \<and> isNumericChapter (sortedChapterNames cfg e ! i)
        \<longrightarrow> \<not> isOneshotFolder (sortedChapterNames cfg e ! j))"
proof -
  have a: "isOneshotFolder s \<longrightarrow>
      getChapterSortValue s = Fin (- 1) \<and> getChapterNumber s = Fin 0
      \<and> getChapterTitle s = ''Oneshot''"
    by (simp add: getChapterSortValue_def getChapterNumber_def getChapterTitle_def)
  have b: "isNumericChapter n \<longrightarrow>
        (\<exists>v. 0 \<le> v \<and> parseFloat n = Fin v)
        \<and> getChapterSortValue n = parseFloat n \<and> getChapterNumber n = parseFloat n
        \<and> getChapterTitle n = ''Chapter '' @ n"
    using parseFloat_numeric [of n] numeric_not_oneshot [of n]
    by (simp add: getChapterSortValue_def getChapterNumber_def getChapterTitle_def)
  have c: "isOneshotFolder s \<and> isNumericChapter n \<longrightarrow>
        js_negative (compareChapters s n) \<and> js_positive (compareChapters n s)"
    using oneshot_vs_numeric [of s n] by blast
  have d: "i < j \<and> j < length (getChapterFolders e) \<and> isNumericChapter (getChapterFolders e ! i)
        \<longrightarrow> \<not> isOneshotFolder (getChapterFolders e ! j)"
    using numeric_not_before_oneshot [OF getChapterFolders_sorted] by blast
  have f: "(\<forall>x \<in> set (lockedChapters cfg). isNumericChapter x \<or> isOneshotFolder x)
        \<and> i < j \<and> j < length (sortedChapterNames cfg e)
        \<and> isNumericChapter (sortedChapterNames cfg e ! i)
        \<longrightarrow> \<not> isOneshotFolder (sortedChapterNames cfg e ! j)"
    using numeric_not_before_oneshot [OF sortedChapterNames_sorted] by blast
  from a b c d f show ?thesis by blast
qed

lemma sample_identities:
  "isOneshotFolder ''OneShot''" "isNumericChapter ''3.5''" "parseFloat ''3.5'' = Fin (7 / 2)"
  "getChapterFolders sampleEnv = [''oneshot'', ''2'', ''3.5'', ''4'']"
  "sortedChapterNames sampleConfig sampleEnv = [''oneshot'', ''2'', ''3.5'', ''4'', ''5'', ''6'', ''9'']"
  by code_simp+

lemma sampleConfig_valid:
  "\<forall>x \<in> set (lockedChapters sampleConfig). isNumericChapter x \<or> isOneshotFolder x"
  by code_simp

theorem oneshot_sorts_first_witness:
  "isOneshotFolder ''OneShot'' \<and> isNumericChapter ''3.5''
   \<and> getChapterSortValue ''OneShot'' = Fin (- 1) \<and> getChapterNumber ''OneShot'' = Fin 0
   \<and> getChapterTitle ''OneShot'' = ''Oneshot''
   \<and> getChapterSortValue ''3.5'' = Fin (7 / 2) \<and> getChapterNumber ''3.5'' = Fin (7 / 2)
   \<and> getChapterTitle ''3.5'' = ''Chapter 3.5''
   \<and> js_negative (compareChapters ''OneShot'' ''3.5'')
   \<and> getChapterFolders sampleEnv = [''oneshot'', ''2'', ''3.5'', ''4'']
   \<and> isNumericChapter (getChapterFolders sampleEnv ! 1)
   \<and> \<not> isOneshotFolder (getChapterFolders sampleEnv ! 2)
   \<and> sortedChapterNames sampleConfig sampleEnv = [''oneshot'', ''2'', ''3.5'', ''4'', ''5'', ''6'', ''9'']
   \<and> isNumericChapter (sortedChapterNames sampleConfig sampleEnv ! 1)
   \<and> \<not> isOneshotFolder (sortedChapterNames sampleConfig sampleEnv ! 2)"
proof -
  have n: "isNumericChapter (getChapterFolders sampleEnv ! 1)"
    "isNumericChapter (sortedChapterNames sampleConfig sampleEnv ! 1)"
    by code_simp+
  have l: "(1::nat) < 2" "2 < length (getChapterFolders sampleEnv)"
    "2 < length (sortedChapterNames sampleConfig sampleEnv)"
    by (simp_all add: sample_identities)
  show ?thesis
    using oneshot_sorts_first [of "''OneShot''" "''3.5''" 1 2 sampleEnv sampleConfig]
      sample_identities sampleConfig_valid n l
    by simp
qed

section \<open>The last chapter update\<close>

lemma compareDates_valid:
  assumes "dateValue e (cd_uploadDate x) = Some vx" and "dateValue e (cd_uploadDate y) = Some vy"
  shows "js_positive (compareDates e y x) = (- vx < - vy)"
  using assms by (simp add: compareDates_def dateNumber_def)

lemma head_of_sorted_is_least:
  fixes key :: "'a \<Rightarrow> 'b::linorder"
  assumes "sorted_wrt (\<lambda>a b. key a \<le> key b) (x # xs)" and "y \<in> set (x # xs)"
  shows "key x \<le> key y"
  using assms by auto

lemma newest_date:
  assumes valid: "\<forall>d \<in> set ds. dateValue e (cd_uploadDate d) \<noteq> None"
    and sorted: "jsSort (compareDates e) ds = newest # older"
  shows "newest \<in> set ds
       \<and> (\<forall>d \<in> set ds. the (dateValue e (cd_uploadDate d)) \<le> the (dateValue e (cd_uploadDate newest)))"
proof -
  let ?key = "\<lambda>d. - the (dateValue e (cd_uploadDate d))"
  have cmp: "js_positive (compareDates e y x) = (?key x < ?key y)"
    if "x \<in> set ds" "y \<in> set ds" for x y
  proof -
    from that valid obtain vx vy where
      "dateValue e (cd_uploadDate x) = Some vx" "dateValue e (cd_uploadDate y) = Some vy"
      by fastforce
    then show ?thesis using compareDates_valid [of e x vx y vy] by simp
  qed
  have "sorted_wrt (\<lambda>a b. ?key a \<le> ?key b) (jsSort (compareDates e) ds)"
    by (rule sorted_jsSort) (rule cmp)
  then have s: "sorted_wrt (\<lambda>a b. ?key a \<le> ?key b) (newest # older)"
    by (simp add: sorted)
  have mem: "set (newest # older) = set ds"
    using set_jsSort [of "compareDates e" ds] by (simp add: sorted)
  have "?key newest \<le> ?key d" if "d \<in> set ds" for d
  proof -
    from that mem have "d \<in> set (newest # older)" by simp
    from head_of_sorted_is_least [OF s this] show ?thesis .
  qed
  then have "\<forall>d \<in> set ds. the (dateValue e (cd_uploadDate d)) \<le> the (dateValue e (cd_uploadDate newest))"
    by simp
  moreover have "newest \<in> set ds" using mem by auto
  ultimately show ?thesis by simp
qed

lemma lastChapterUpdateOf_nonempty:
  assumes "chs \<noteq> []"
    and valid: "\<forall>(name, r) \<in> set chs. dateValue e (uploadDate r) \<noteq> None"
  shows "snd (lastChapterUpdateOf e chs t) = t
       \<and> (\<exists>(name, r) \<in> set chs. fst (lastChapterUpdateOf e chs t) = uploadDate r)
       \<and> (\<forall>(name, r) \<in> set chs.
             the (dateValue e (uploadDate r)) \<le> the (dateValue e (fst (lastChapterUpdateOf e chs t))))"
proof -
  let ?ds = "map (\<lambda>ch. \<lparr> cd_chapterName = folder ch, cd_uploadDate = uploadDate ch,
                         cd_locked = locked ch \<rparr>) (objectValues chs)"
  have dates: "cd_uploadDate ` set ?ds = (\<lambda>(name, r). uploadDate r) ` set chs"
    by (force simp: set_objectValues image_iff)
  have "objectValues chs \<noteq> []"
    using length_objectValues [of chs] assms(1) by (metis length_0_conv)
  then have "jsSort (compareDates e) ?ds \<noteq> []"
    by (simp add: jsSort_Nil_iff)
  then obtain newest older where sorted: "jsSort (compareDates e) ?ds = newest # older"
    by (cases "jsSort (compareDates e) ?ds") auto
  have v: "\<forall>d \<in> set ?ds. dateValue e (cd_uploadDate d) \<noteq> None"
  proof
    fix d assume "d \<in> set ?ds"
    then have "cd_uploadDate d \<in> (\<lambda>(name, r). uploadDate r) ` set chs"
      using dates by blast
    then show "dateValue e (cd_uploadDate d) \<noteq> None" using valid by auto
  qed
  from newest_date [OF v sorted]
  have n1: "newest \<in> set ?ds"
    and n2: "\<forall>d \<in> set ?ds. the (dateValue e (cd_uploadDate d)) \<le> the (dateValue e (cd_uploadDate newest))"
    by blast+
  have res: "lastChapterUpdateOf e chs t = (cd_uploadDate newest, t)"
    using sorted by (simp add: lastChapterUpdateOf_def)
  have "cd_uploadDate newest \<in> (\<lambda>(name, r). uploadDate r) ` set chs"
    using n1 dates by blast
  then have a: "\<exists>(name, r) \<in> set chs. cd_uploadDate newest = uploadDate r"
    by auto
  have b: "\<forall>(name, r) \<in> set chs.
      the (dateValue e (uploadDate r)) \<le> the (dateValue e (cd_uploadDate newest))"
  proof -
    {
      fix name r assume "(name, r) \<in> set chs"
      then have "uploadDate r \<in> cd_uploadDate ` set ?ds"
        unfolding dates by force
      then obtain d where "d \<in> set ?ds" "uploadDate r = cd_uploadDate d" by blast
      with n2 have "the (dateValue e (uploadDate r)) \<le> the (dateValue e (cd_uploadDate newest))"
        by force
    }
    then show ?thesis by auto
  qed
  from a b show ?thesis unfolding res by simp
qed

lemma run_shape:
  assumes "(G, t') = generateChaptersData_v62 cfg old ift e t
           \<or> (G, t') = generateChaptersData_v70 cfg old e t"
  shows "\<exists>t1. (sortedChapterNames cfg e = [] \<longrightarrow> t1 = t)
            \<and> lastChapterUpdate G = fst (lastChapterUpdateOf e (chapters G) t1)
            \<and> t' = snd (lastChapterUpdateOf e (chapters G) t1)
            \<and> fst ` set (chapters G) = set (sortedChapterNames cfg e)"
  using assms
proof
  assume a: "(G, t') = generateChaptersData_v62 cfg old ift e t"
  let ?loop = "forEachChapter (chapterEntry_v62 cfg old ift e) (sortedChapterNames cfg e) [] t"
  have G: "G = \<lparr> chapters = fst ?loop,
                 lastChapterUpdate = fst (lastChapterUpdateOf e (fst ?loop) (snd ?loop)) \<rparr>"
    and t': "t' = snd (lastChapterUpdateOf e (fst ?loop) (snd ?loop))"
    using a by (simp_all add: generateChaptersData_v62_def Let_def)
  have "sortedChapterNames cfg e = [] \<longrightarrow> snd ?loop = t" by simp
  moreover have "fst ` set (fst ?loop) = set (sortedChapterNames cfg e)"
    by (simp add: forEachChapter_keys)
  ultimately show ?thesis using G t' by (intro exI [of _ "snd ?loop"]) simp
next
  assume a: "(G, t') = generateChaptersData_v70 cfg old e t"
  let ?loop = "forEachChapter (chapterEntry_v70 cfg old e) (sortedChapterNames cfg e) [] t"
  have G: "G = \<lparr> chapters = fst ?loop,
                 lastChapterUpdate = fst (lastChapterUpdateOf e (fst ?loop) (snd ?loop)) \<rparr>"
    and t': "t' = snd (lastChapterUpdateOf e (fst ?loop) (snd ?loop))"
    using a by (simp_all add: generateChaptersData_v70_def Let_def)
  have "sortedChapterNames cfg e = [] \<longrightarrow> snd ?loop = t" by simp
  moreover have "fst ` set (fst ?loop) = set (sortedChapterNames cfg e)"
    by (simp add: forEachChapter_keys)
  ultimately show ?thesis using G t' by (intro exI [of _ "snd ?loop"]) simp
qed

text \<open>
  Claim C4. Let every upload date in the generated map denote a point in time. When the
  map is not empty, \<open>lastChapterUpdate\<close> is the upload date of one of its records
  and no record has a later one: it is the maximum as a point in time. When the map is
  empty, \<open>lastChapterUpdate\<close> is the reading of the clock made at that moment, the
  first one of the run. This holds for version 6.2 and for version 7.0.
\<close>

theorem last_update_is_newest:
  assumes run: "(G, t') = generateChaptersData_v62 cfg oldMangaData firstTime e t
                \<or> (G, t') = generateChaptersData_v70 cfg oldMangaData e t"
    and valid: "\<forall>(name, r) \<in> set (chapters G). dateValue e (uploadDate r) \<noteq> None"
  shows "(chapters G = [] \<longrightarrow> lastChapterUpdate G = clock e t \<and> t' = Suc t)
       \<and> (chapters G \<noteq> [] \<longrightarrow>
            (\<exists>(name, r) \<in> set (chapters G). lastChapterUpdate G = uploadDate r)
            \<and> (\<exists>newest. dateValue e (lastChapterUpdate G) = Some newest
                 \<and> (\<forall>(name, r) \<in> set (chapters G).
                       \<exists>v. dateValue e (uploadDate r) = Some v \<and> v \<le> newest)))"
proof -
  from run_shape [OF run] obtain t1 where
    t1: "sortedChapterNames cfg e = [] \<longrightarrow> t1 = t"
    and last: "lastChapterUpdate G = fst (lastChapterUpdateOf e (chapters G) t1)"
    and t': "t' = snd (lastChapterUpdateOf e (chapters G) t1)"
    and keys: "fst ` set (chapters G) = set (sortedChapterNames cfg e)"
    by blast
  have empty: "lastChapterUpdate G = clock e t \<and> t' = Suc t" if "chapters G = []"
  proof -
    from that keys have "sortedChapterNames cfg e = []" by simp
    with t1 have "t1 = t" by simp
    then show ?thesis using that last t' by (simp add: lastChapterUpdateOf_empty)
  qed
  have nonempty: "(\<exists>(name, r) \<in> set (chapters G). lastChapterUpdate G = uploadDate r)
            \<and> (\<exists>newest. dateValue e (lastChapterUpdate G) = Some newest
                 \<and> (\<forall>(name, r) \<in> set (chapters G).
                       \<exists>v. dateValue e (uploadDate r) = Some v \<and> v \<le> newest))"
    if ne: "chapters G \<noteq> []"
  proof -
    from lastChapterUpdateOf_nonempty [OF ne valid, of t1]
    have mem: "\<exists>(name, r) \<in> set (chapters G). lastChapterUpdate G = uploadDate r"
      and le: "\<forall>(name, r) \<in> set (chapters G).
                 the (dateValue e (uploadDate r)) \<le> the (dateValue e (lastChapterUpdate G))"
      unfolding last by blast+
    from mem valid obtain newest where newest: "dateValue e (lastChapterUpdate G) = Some newest"
      by fastforce
    have "\<forall>(name, r) \<in> set (chapters G). \<exists>v. dateValue e (uploadDate r) = Some v \<and> v \<le> newest"
    proof -
      {
        fix name r assume m: "(name, r) \<in> set (chapters G)"
        with valid obtain v where v: "dateValue e (uploadDate r) = Some v" by fastforce
        from le m have "the (dateValue e (uploadDate r)) \<le> the (dateValue e (lastChapterUpdate G))"
          by fastforce
        with v newest have "\<exists>v. dateValue e (uploadDate r) = Some v \<and> v \<le> newest" by simp
      }
      then show ?thesis by auto
    qed
    with mem newest show ?thesis by blast
  qed
  from empty nonempty show ?thesis by blast
qed

lemma sample_dates_valid:
  "\<forall>(name, r) \<in> set (chapters (fst (generateChaptersData_v62 sampleConfig sampleCatalog False sampleEnv 0))).
      dateValue sampleEnv (uploadDate r) \<noteq> None"
  unfolding sample_chapters_v62 by (simp add: sampleEnv_def sampleDateValue_def)

lemma empty_run:
  "generateChaptersData_v62 emptyConfig sampleCatalog False emptyEnv 0
     = (\<lparr> chapters = [], lastChapterUpdate = ''2026-11-03T09:00:00+07:00'' \<rparr>, 1)"
  by code_simp

theorem last_update_is_newest_witness:
  "lastChapterUpdate (fst (generateChaptersData_v62 sampleConfig sampleCatalog False sampleEnv 0))
     = ''2026-11-03T09:00:02+07:00''
   \<and> dateValue sampleEnv ''2026-11-03T09:00:02+07:00'' = Some 1793671202000
   \<and> chapters (fst (generateChaptersData_v62 sampleConfig sampleCatalog False sampleEnv 0)) \<noteq> []
   \<and> chapters (fst (generateChaptersData_v62 emptyConfig sampleCatalog False emptyEnv 0)) = []
   \<and> lastChapterUpdate (fst (generateChaptersData_v62 emptyConfig sampleCatalog False emptyEnv 0))
       = clock emptyEnv 0"
proof -
  let ?run = "generateChaptersData_v62 sampleConfig sampleCatalog False sampleEnv 0"
  have r: "(fst ?run, snd ?run) = ?run \<or> (fst ?run, snd ?run)
             = generateChaptersData_v70 sampleConfig sampleCatalog sampleEnv 0"
    by simp
  have ne: "chapters (fst ?run) \<noteq> []" unfolding sample_chapters_v62 by simp
  have d: "dateValue sampleEnv ''2026-11-03T09:00:02+07:00'' = Some 1793671202000"
    by (simp add: sampleEnv_def sampleDateValue_def)
  let ?erun = "generateChaptersData_v62 emptyConfig sampleCatalog False emptyEnv 0"
  have er: "(fst ?erun, snd ?erun) = ?erun \<or> (fst ?erun, snd ?erun)
             = generateChaptersData_v70 emptyConfig sampleCatalog emptyEnv 0"
    by simp
  have ee: "chapters (fst ?erun) = []" by (simp add: empty_run)
  have ev: "\<forall>(name, r) \<in> set (chapters (fst ?erun)). dateValue emptyEnv (uploadDate r) \<noteq> None"
    by (simp add: ee)
  show ?thesis
    using last_update_is_newest [OF r sample_dates_valid] last_update_is_newest [OF er ev]
      ne d ee sample_last_v62(1)
    by simp
qed

section \<open>Which identities the map holds\<close>

lemma removedLockedChapters_iff:
  "name \<in> set (removedLockedChapters cfg old e) \<longleftrightarrow>
     (\<exists>oc. oldChapterOf old name = Some oc \<and> oc_locked oc
            \<and> \<not> checkIfFolderExists e name \<and> name \<notin> set (lockedChapters cfg))"
proof -
  have "name \<in> fst ` set chs" if "map_of chs name = Some oc" for chs and oc :: old_chapter
    using map_of_SomeD [OF that] by force
  then show ?thesis
    by (auto simp: removedLockedChapters_def oldChapterOf_def split: option.splits)
qed

text \<open>
  Claim C1, amended. The identities of the generated map (version 6.2 or 7.0) are exactly
  the enumerated storage folders and the configured locked identities; the previous
  catalog is not consulted. So a record of the previous catalog is absent from the new
  map if and only if its identity is neither an enumerated folder nor in
  \<open>lockedChapters\<close>. Every stale locked identity (previously locked, folder gone, no
  longer configured: the list that the pre-pass prints) is absent, and so is an identity
  whose previous record was not locked, once its folder is gone and it is not configured.
\<close>

theorem absent_iff_not_listed:
  assumes "G = fst (generateChaptersData_v62 cfg oldMangaData firstTime e t)
           \<or> G = fst (generateChaptersData_v70 cfg oldMangaData e t)"
  shows "fst ` set (chapters G) = set (getChapterFolders e) \<union> set (lockedChapters cfg)
       \<and> (oldChapterOf oldMangaData name = Some oc \<longrightarrow>
            (name \<notin> fst ` set (chapters G)
               \<longleftrightarrow> name \<notin> set (getChapterFolders e) \<and> name \<notin> set (lockedChapters cfg)))
       \<and> (oldChapterOf oldMangaData name = Some oc \<and> oc_locked oc
            \<and> \<not> checkIfFolderExists e name \<and> name \<notin> set (lockedChapters cfg)
            \<longrightarrow> name \<notin> fst ` set (chapters G))
       \<and> (oldChapterOf oldMangaData name = Some oc \<and> \<not> oc_locked oc
            \<and> \<not> checkIfFolderExists e name \<and> name \<notin> set (lockedChapters cfg)
            \<longrightarrow> name \<notin> fst ` set (chapters G))
       \<and> (name \<in> set (removedLockedChapters cfg oldMangaData e) \<longrightarrow> name \<notin> fst ` set (chapters G))"
proof -
  have keys: "fst ` set (chapters G) = set (getChapterFolders e) \<union> set (lockedChapters cfg)"
    using assms keys_v62 keys_v70 by metis
  have gone: "name \<notin> set (getChapterFolders e)" if "\<not> checkIfFolderExists e name"
    using that getChapterFolders_exists by blast
  have removed: "name \<in> set (removedLockedChapters cfg oldMangaData e)
                   \<longrightarrow> name \<notin> fst ` set (chapters G)"
    unfolding keys removedLockedChapters_iff using gone by blast
  from keys gone removed show ?thesis by blast
qed

theorem absent_iff_not_listed_witness:
  "oldChapterOf sampleCatalog ''8''
     = Some \<lparr> oc_locked = True, oc_uploadDate = Some ''2023-12-24T08:30:00+07:00'', oc_views = JNum 9 \<rparr>
   \<and> \<not> checkIfFolderExists sampleEnv ''8'' \<and> ''8'' \<notin> set (lockedChapters sampleConfig)
   \<and> removedLockedChapters sampleConfig sampleCatalog sampleEnv = [''8'']
   \<and> ''8'' \<notin> fst ` set (chapters (fst (generateChaptersData_v62 sampleConfig sampleCatalog False sampleEnv 0)))
   \<and> oldChapterOf sampleCatalog ''7''
     = Some \<lparr> oc_locked = False, oc_uploadDate = Some ''2023-12-24T08:30:00+07:00'', oc_views = JNum 3 \<rparr>
   \<and> \<not> checkIfFolderExists sampleEnv ''7'' \<and> ''7'' \<notin> set (lockedChapters sampleConfig)
   \<and> ''7'' \<notin> fst ` set (chapters (fst (generateChaptersData_v62 sampleConfig sampleCatalog False sampleEnv 0)))
   \<and> fst ` set (chapters (fst (generateChaptersData_v62 sampleConfig sampleCatalog False sampleEnv 0)))
       = {''oneshot'', ''2'', ''3.5'', ''4'', ''5'', ''6'', ''9''}"
proof -
  let ?oc8 = "\<lparr> oc_locked = True, oc_uploadDate = Some ''2023-12-24T08:30:00+07:00'', oc_views = JNum 9 \<rparr>"
  let ?oc7 = "\<lparr> oc_locked = False, oc_uploadDate = Some ''2023-12-24T08:30:00+07:00'', oc_views = JNum 3 \<rparr>"
  have o: "oldChapterOf sampleCatalog ''8'' = Some ?oc8" "oldChapterOf sampleCatalog ''7'' = Some ?oc7"
    by (simp_all add: oldChapterOf_def sampleCatalog_def)
  have x: "\<not> checkIfFolderExists sampleEnv ''8''" "\<not> checkIfFolderExists sampleEnv ''7''"
    by (simp_all add: checkIfFolderExists_def sampleEnv_def)
  have c: "''8'' \<notin> set (lockedChapters sampleConfig)" "''7'' \<notin> set (lockedChapters sampleConfig)"
    by (simp_all add: sampleConfig_def)
  have rm: "removedLockedChapters sampleConfig sampleCatalog sampleEnv = [''8'']"
    by code_simp
  have k: "set (getChapterFolders sampleEnv) \<union> set (lockedChapters sampleConfig)
       = {''oneshot'', ''2'', ''3.5'', ''4'', ''5'', ''6'', ''9''}"
    by (auto simp: sample_identities(4) sampleConfig_def)
  show ?thesis
    using absent_iff_not_listed [OF disjI1 [OF refl], of sampleConfig sampleCatalog False sampleEnv 0 "''8''" ?oc8]
      absent_iff_not_listed [OF disjI1 [OF refl], of sampleConfig sampleCatalog False sampleEnv 0 "''7''" ?oc7]
      o x c rm k
    by simp
qed

text \<open>
  Claim C1 as stated fails: in the sample run the previous record of \<open>7\<close> is not
  locked, its folder is gone and it is not configured, and \<open>7\<close> is absent from the
  new map although it is not a stale locked identity.
\<close>

theorem pruning_counterexample:
  "oldChapterOf sampleCatalog ''7''
     = Some \<lparr> oc_locked = False, oc_uploadDate = Some ''2023-12-24T08:30:00+07:00'', oc_views = JNum 3 \<rparr>
   \<and> \<not> (''7'' \<notin> fst ` set (chapters (fst (generateChaptersData_v62 sampleConfig sampleCatalog False sampleEnv 0)))
          \<longleftrightarrow> (oc_locked \<lparr> oc_locked = False, oc_uploadDate = Some ''2023-12-24T08:30:00+07:00'',
                              oc_views = JNum 3 \<rparr>
                \<and> \<not> checkIfFolderExists sampleEnv ''7''
                \<and> ''7'' \<notin> set (lockedChapters sampleConfig)))"
proof -
  have o: "oldChapterOf sampleCatalog ''7''
     = Some \<lparr> oc_locked = False, oc_uploadDate = Some ''2023-12-24T08:30:00+07:00'', oc_views = JNum 3 \<rparr>"
    by (simp add: oldChapterOf_def sampleCatalog_def)
  have "''7'' \<notin> fst ` set (chapters (fst (generateChaptersData_v62 sampleConfig sampleCatalog False sampleEnv 0)))"
    unfolding sample_chapters_v62 by simp
  with o show ?thesis by simp
qed

section \<open>Locked chapters without a folder\<close>

lemma lockedAbsent_uploadDate:
  assumes "name \<in> set (lockedChapters cfg)" and "\<not> checkIfFolderExists e name"
  shows "chapterUploadDate cfg old e name t =
     (case oldChapterOf old name of
        None \<Rightarrow> (clock e t, Suc t)
      | Some oc \<Rightarrow>
          (case oc_uploadDate oc of
             None \<Rightarrow> (clock e t, Suc t)
           | Some d \<Rightarrow> if d \<noteq> [] then (d, t) else (clock e t, Suc t)))"
  using assms
  by (simp add: chapterUploadDate_def getWIBTimestamp_def split: option.splits)

text \<open>
  Claim C3. On a run of version 6.2 that is not a first run, an identity that is configured
  as locked and has no folder has a record in the map; the record is locked and has page
  count 0. If a previous record exists (a record as the generator writes it, with an
  upload date and a non-negative integer as views), the new record carries the previous
  upload date and the previous views unchanged. If no previous record exists, the upload
  date is a reading of the clock made during this run and the views are 0. The further
  conjuncts tell what the guards of the code do with a previous record that lacks a field:
  falsy views become 0, and a missing or empty upload date is replaced by a reading of the
  clock.
\<close>

theorem locked_absent_record:
  assumes m: "(name, r) \<in> set (chapters (fst (generateChaptersData_v62 cfg oldMangaData False e t)))"
    and l: "name \<in> set (lockedChapters cfg)"
    and x: "\<not> checkIfFolderExists e name"
  shows "totalPages r = JNum 0 \<and> pages r = JNum 0 \<and> locked r
       \<and> (\<exists>r'. (name, r') \<in> set (chapters (fst (generateChaptersData_v62 cfg oldMangaData False e t))))
       \<and> (oldChapterOf oldMangaData name = Some oc \<and> oc_uploadDate oc = Some d \<and> d \<noteq> []
            \<and> oc_views oc = JNum n \<and> 0 \<le> n
            \<longrightarrow> Some (uploadDate r) = oc_uploadDate oc \<and> views r = oc_views oc)
       \<and> (oldChapterOf oldMangaData name = None
            \<longrightarrow> (\<exists>k. t \<le> k \<and> k < snd (generateChaptersData_v62 cfg oldMangaData False e t)
                     \<and> uploadDate r = clock e k)
                \<and> views r = JNum 0)
       \<and> (oldChapterOf oldMangaData name = Some oc \<and> oc_uploadDate oc = Some d \<and> d \<noteq> []
            \<longrightarrow> uploadDate r = d)
       \<and> (oldChapterOf oldMangaData name = Some oc
            \<longrightarrow> views r = (if truthy (oc_views oc) then oc_views oc else JNum 0))
       \<and> (oldChapterOf oldMangaData name = Some oc \<and> oc_views oc = JNum n \<longrightarrow> views r = JNum n)
       \<and> (oldChapterOf oldMangaData name = None
            \<or> (oldChapterOf oldMangaData name = Some oc
                \<and> (oc_uploadDate oc = None \<or> oc_uploadDate oc = Some []))
            \<longrightarrow> (\<exists>k. t \<le> k \<and> k < snd (generateChaptersData_v62 cfg oldMangaData False e t)
                     \<and> uploadDate r = clock e k))
       \<and> (oldChapterOf oldMangaData name = None \<longrightarrow> views r = JNum 0)"
proof -
  from entry_bounded_v62 [OF m] obtain k where k: "t \<le> k"
    and r: "r = fst (chapterEntry_v62 cfg oldMangaData False e name k)"
    and b: "snd (chapterEntry_v62 cfg oldMangaData False e name k)
              \<le> snd (generateChaptersData_v62 cfg oldMangaData False e t)"
    by blast
  have ud: "uploadDate r = fst (chapterUploadDate cfg oldMangaData e name k)"
    and tk: "snd (chapterEntry_v62 cfg oldMangaData False e name k)
               = snd (chapterUploadDate cfg oldMangaData e name k)"
    and vw: "views r = getOldChapterViews_v62 name oldMangaData"
    and tp: "totalPages r = JNum 0" and pg: "pages r = JNum 0" and lk: "locked r"
    using l x by (simp_all add: r chapterEntry_v62_def Let_def)
  have ex: "\<exists>r'. (name, r') \<in> set (chapters (fst (generateChaptersData_v62 cfg oldMangaData False e t)))"
    using m by blast
  note date = lockedAbsent_uploadDate [OF l x, of oldMangaData k]
  have a: "oldChapterOf oldMangaData name = Some oc \<and> oc_uploadDate oc = Some d \<and> d \<noteq> []
            \<longrightarrow> uploadDate r = d"
    by (simp add: ud date)
  have v1: "oldChapterOf oldMangaData name = Some oc
            \<longrightarrow> views r = (if truthy (oc_views oc) then oc_views oc else JNum 0)"
    by (auto simp: vw getOldChapterViews_v62_def oldChapterOf_def split: option.splits)
  have v2: "oldChapterOf oldMangaData name = Some oc \<and> oc_views oc = JNum n \<longrightarrow> views r = JNum n"
    using v1 by auto
  have v3: "oldChapterOf oldMangaData name = None \<longrightarrow> views r = JNum 0"
    by (auto simp: vw getOldChapterViews_v62_def oldChapterOf_def split: option.splits)
  have fresh: "oldChapterOf oldMangaData name = None
            \<or> (oldChapterOf oldMangaData name = Some oc
                \<and> (oc_uploadDate oc = None \<or> oc_uploadDate oc = Some []))
            \<longrightarrow> (\<exists>k. t \<le> k \<and> k < snd (generateChaptersData_v62 cfg oldMangaData False e t)
                     \<and> uploadDate r = clock e k)"
  proof
    assume "oldChapterOf oldMangaData name = None
            \<or> (oldChapterOf oldMangaData name = Some oc
                \<and> (oc_uploadDate oc = None \<or> oc_uploadDate oc = Some []))"
    then have "chapterUploadDate cfg oldMangaData e name k = (clock e k, Suc k)"
      unfolding date by auto
    then have "uploadDate r = clock e k"
      and "Suc k \<le> snd (generateChaptersData_v62 cfg oldMangaData False e t)"
      using ud tk b by simp_all
    with k show "\<exists>k. t \<le> k \<and> k < snd (generateChaptersData_v62 cfg oldMangaData False e t)
                     \<and> uploadDate r = clock e k"
      by auto
  qed
  have main: "oldChapterOf oldMangaData name = Some oc \<and> oc_uploadDate oc = Some d \<and> d \<noteq> []
            \<and> oc_views oc = JNum n \<and> 0 \<le> n
            \<longrightarrow> Some (uploadDate r) = oc_uploadDate oc \<and> views r = oc_views oc"
    using a v2 by auto
  have none: "oldChapterOf oldMangaData name = None
            \<longrightarrow> (\<exists>k. t \<le> k \<and> k < snd (generateChaptersData_v62 cfg oldMangaData False e t)
                     \<and> uploadDate r = clock e k)
                \<and> views r = JNum 0"
    using fresh v3 by blast
  from tp pg lk ex main none a v1 v2 v3 fresh show ?thesis by blast
qed


theorem locked_absent_record_witness:
  "(''5'', \<lparr> title = ''Chapter 5'', chapterNumber = Fin 5, folder = ''5'',
          uploadDate = ''2023-12-24T08:30:00+07:00'', totalPages = JNum 0, pages = JNum 0,
          locked = True, views = JNum 40 \<rparr>)
     \<in> set (chapters (fst (generateChaptersData_v62 sampleConfig sampleCatalog False sampleEnv 0)))
   \<and> ''5'' \<in> set (lockedChapters sampleConfig) \<and> \<not> checkIfFolderExists sampleEnv ''5''
   \<and> oldChapterOf sampleCatalog ''5''
       = Some \<lparr> oc_locked = True, oc_uploadDate = Some ''2023-12-24T08:30:00+07:00'',
                oc_views = JNum 40 \<rparr>
   \<and> (''6'', \<lparr> title = ''Chapter 6'', chapterNumber = Fin 6, folder = ''6'',
          uploadDate = ''2026-11-03T09:00:01+07:00'', totalPages = JNum 0, pages = JNum 0,
          locked = True, views = JNum 12 \<rparr>)
     \<in> set (chapters (fst (generateChaptersData_v62 sampleConfig sampleCatalog False sampleEnv 0)))
   \<and> ''6'' \<in> set (lockedChapters sampleConfig) \<and> \<not> checkIfFolderExists sampleEnv ''6''
   \<and> oldChapterOf sampleCatalog ''6''
       = Some \<lparr> oc_locked = True, oc_uploadDate = None, oc_views = JNum 12 \<rparr>
   \<and> clock sampleEnv 1 = ''2026-11-03T09:00:01+07:00''
   \<and> (''9'', \<lparr> title = ''Chapter 9'', chapterNumber = Fin 9, folder = ''9'',
          uploadDate = ''2026-11-03T09:00:02+07:00'', totalPages = JNum 0, pages = JNum 0,
          locked = True, views = JNum 0 \<rparr>)
     \<in> set (chapters (fst (generateChaptersData_v62 sampleConfig sampleCatalog False sampleEnv 0)))
   \<and> ''9'' \<in> set (lockedChapters sampleConfig) \<and> \<not> checkIfFolderExists sampleEnv ''9''
   \<and> oldChapterOf sampleCatalog ''9'' = None
   \<and> clock sampleEnv 2 = ''2026-11-03T09:00:02+07:00''
   \<and> snd (generateChaptersData_v62 sampleConfig sampleCatalog False sampleEnv 0) = 3"
proof -
  let ?G = "chapters (fst (generateChaptersData_v62 sampleConfig sampleCatalog False sampleEnv 0))"
  let ?r5 = "\<lparr> title = ''Chapter 5'', chapterNumber = Fin 5, folder = ''5'',
          uploadDate = ''2023-12-24T08:30:00+07:00'', totalPages = JNum 0, pages = JNum 0,
          locked = True, views = JNum 40 \<rparr>"
  let ?r6 = "\<lparr> title = ''Chapter 6'', chapterNumber = Fin 6, folder = ''6'',
          uploadDate = ''2026-11-03T09:00:01+07:00'', totalPages = JNum 0, pages = JNum 0,
          locked = True, views = JNum 12 \<rparr>"
  let ?r9 = "\<lparr> title = ''Chapter 9'', chapterNumber = Fin 9, folder = ''9'',
          uploadDate = ''2026-11-03T09:00:02+07:00'', totalPages = JNum 0, pages = JNum 0,
          locked = True, views = JNum 0 \<rparr>"
  let ?oc5 = "\<lparr> oc_locked = True, oc_uploadDate = Some ''2023-12-24T08:30:00+07:00'',
                oc_views = JNum 40 \<rparr>"
  let ?oc6 = "\<lparr> oc_locked = True, oc_uploadDate = None, oc_views = JNum 12 \<rparr>"
  have m5: "(''5'', ?r5) \<in> set ?G" and m6: "(''6'', ?r6) \<in> set ?G" and m9: "(''9'', ?r9) \<in> set ?G"
    unfolding sample_chapters_v62 by simp_all
  have l5: "''5'' \<in> set (lockedChapters sampleConfig)"
    and l6: "''6'' \<in> set (lockedChapters sampleConfig)"
    and l9: "''9'' \<in> set (lockedChapters sampleConfig)"
    by (simp_all add: sampleConfig_def)
  have x5: "\<not> checkIfFolderExists sampleEnv ''5''" and x6: "\<not> checkIfFolderExists sampleEnv ''6''"
    and x9: "\<not> checkIfFolderExists sampleEnv ''9''"
    by (simp_all add: checkIfFolderExists_def sampleEnv_def)
  have o5: "oldChapterOf sampleCatalog ''5'' = Some ?oc5"
    and o6: "oldChapterOf sampleCatalog ''6'' = Some ?oc6"
    and o9: "oldChapterOf sampleCatalog ''9'' = None"
    by (simp_all add: oldChapterOf_def sampleCatalog_def)
  have c: "clock sampleEnv 1 = ''2026-11-03T09:00:01+07:00''"
    "clock sampleEnv 2 = ''2026-11-03T09:00:02+07:00''"
    by (simp_all add: sampleEnv_def)
  have a: "uploadDate ?r5 = ''2023-12-24T08:30:00+07:00'' \<and> views ?r5 = JNum 40"
    using locked_absent_record [OF m5 l5 x5, of ?oc5 "''2023-12-24T08:30:00+07:00''" 40] o5
    by simp
  have b: "\<exists>k. 0 \<le> k \<and> k < snd (generateChaptersData_v62 sampleConfig sampleCatalog False sampleEnv 0)
             \<and> uploadDate ?r6 = clock sampleEnv k"
    using locked_absent_record [OF m6 l6 x6, of ?oc6] o6 by simp
  have d: "views ?r9 = JNum 0"
    using locked_absent_record [OF m9 l9 x9] o9 by simp
  from a b d m5 m6 m9 l5 l6 l9 x5 x6 x9 o5 o6 o9 c sample_last_v62(2) show ?thesis by simp
qed

section \<open>The upload date resolver\<close>

lemma convertToWIB_nonempty: "s \<noteq> [] \<Longrightarrow> convertToWIB e s = Some (wibString e s)"
  by (simp add: convertToWIB_def)

text \<open>
  Claim C5, amended. The resolver takes the first source that answers, in the order:
  history of the manifest (not asked when the chapter is locked), history of the folder,
  last modification time of the folder. A history query that returns nothing passes on to
  the next source. An exception thrown by any step, a history query or the stat, is caught
  and gives the current reading of the clock at once, without asking the remaining
  sources. These cases cover every answer of the collaborators, so no exception escapes.
\<close>

theorem upload_date_fallbacks:
  "(\<not> isLocked \<and> manifestLog e name = ExecOutput m \<and> m \<noteq> []
      \<longrightarrow> getUploadDate e name isLocked t = (wibString e m, t))
   \<and> ((isLocked \<or> manifestLog e name = ExecOutput []) \<and> folderLog e name = ExecOutput f \<and> f \<noteq> []
      \<longrightarrow> getUploadDate e name isLocked t = (wibString e f, t))
   \<and> ((isLocked \<or> manifestLog e name = ExecOutput []) \<and> folderLog e name = ExecOutput []
        \<and> folderStat e name = StatMtime s
      \<longrightarrow> getUploadDate e name isLocked t = (wibString e s, t))
   \<and> ((isLocked \<or> manifestLog e name = ExecOutput []) \<and> folderLog e name = ExecOutput []
        \<and> folderStat e name = StatThrew
      \<longrightarrow> getUploadDate e name isLocked t = (clock e t, Suc t))
   \<and> ((isLocked \<or> manifestLog e name = ExecOutput []) \<and> folderLog e name = ExecThrew
      \<longrightarrow> getUploadDate e name isLocked t = (clock e t, Suc t))
   \<and> (\<not> isLocked \<and> manifestLog e name = ExecThrew
      \<longrightarrow> getUploadDate e name isLocked t = (clock e t, Suc t))"
  by (auto simp: getUploadDate_def uploadDateFromFolder_def getWIBTimestamp_def)

theorem upload_date_fallbacks_witness:
  "manifestLog sampleEnv ''3.5'' = ExecOutput ''2024-03-01T10:00:00+09:00''
   \<and> getUploadDate sampleEnv ''3.5'' False 0 = (''2024-03-01T08:00:00+07:00'', 0)
   \<and> folderLog sampleEnv ''2'' = ExecOutput ''2024-02-01T12:00:00+07:00''
   \<and> getUploadDate sampleEnv ''2'' True 0 = (''2024-02-01T12:00:00+07:00'', 0)
   \<and> manifestLog sampleEnv ''oneshot'' = ExecOutput [] \<and> folderLog sampleEnv ''oneshot'' = ExecOutput []
   \<and> folderStat sampleEnv ''oneshot'' = StatMtime ''2024-01-01T00:00:00.000Z''
   \<and> getUploadDate sampleEnv ''oneshot'' False 0 = (''2024-01-01T07:00:00+07:00'', 0)
   \<and> folderLog sampleEnv ''12'' = ExecOutput [] \<and> folderStat sampleEnv ''12'' = StatThrew
   \<and> getUploadDate sampleEnv ''12'' True 0 = (''2026-11-03T09:00:00+07:00'', 1)
   \<and> folderLog sampleEnv ''11'' = ExecThrew
   \<and> getUploadDate sampleEnv ''11'' True 0 = (''2026-11-03T09:00:00+07:00'', 1)
   \<and> manifestLog sampleEnv ''4'' = ExecThrew
   \<and> getUploadDate sampleEnv ''4'' False 0 = (''2026-11-03T09:00:00+07:00'', 1)"
proof -
  have logs: "manifestLog sampleEnv ''3.5'' = ExecOutput ''2024-03-01T10:00:00+09:00''"
    "folderLog sampleEnv ''2'' = ExecOutput ''2024-02-01T12:00:00+07:00''"
    "manifestLog sampleEnv ''oneshot'' = ExecOutput []" "folderLog sampleEnv ''oneshot'' = ExecOutput []"
    "folderStat sampleEnv ''oneshot'' = StatMtime ''2024-01-01T00:00:00.000Z''"
    "folderLog sampleEnv ''12'' = ExecOutput []" "folderStat sampleEnv ''12'' = StatThrew"
    "folderLog sampleEnv ''11'' = ExecThrew"
    "manifestLog sampleEnv ''4'' = ExecThrew"
    by (simp_all add: sampleEnv_def)
  have wib: "wibString sampleEnv ''2024-03-01T10:00:00+09:00'' = ''2024-03-01T08:00:00+07:00''"
    "wibString sampleEnv ''2024-02-01T12:00:00+07:00'' = ''2024-02-01T12:00:00+07:00''"
    "wibString sampleEnv ''2024-01-01T00:00:00.000Z'' = ''2024-01-01T07:00:00+07:00''"
    "clock sampleEnv 0 = ''2026-11-03T09:00:00+07:00''"
    by (simp_all add: sampleEnv_def sampleWib_def)
  have a: "getUploadDate sampleEnv ''3.5'' False 0 = (''2024-03-01T08:00:00+07:00'', 0)"
    using upload_date_fallbacks [of False sampleEnv "''3.5''" "''2024-03-01T10:00:00+09:00''" 0]
      logs wib by simp
  have b: "getUploadDate sampleEnv ''2'' True 0 = (''2024-02-01T12:00:00+07:00'', 0)"
    using upload_date_fallbacks [of True sampleEnv "''2''" _ 0 "''2024-02-01T12:00:00+07:00''"]
      logs wib by simp
  have c: "getUploadDate sampleEnv ''oneshot'' False 0 = (''2024-01-01T07:00:00+07:00'', 0)"
    using upload_date_fallbacks [of False sampleEnv "''oneshot''" _ 0 _ "''2024-01-01T00:00:00.000Z''"]
      logs wib by simp
  have d: "getUploadDate sampleEnv ''12'' True 0 = (''2026-11-03T09:00:00+07:00'', 1)"
    using upload_date_fallbacks [of True sampleEnv "''12''" _ 0] logs wib by simp
  have f: "getUploadDate sampleEnv ''11'' True 0 = (''2026-11-03T09:00:00+07:00'', 1)"
    using upload_date_fallbacks [of True sampleEnv "''11''" _ 0] logs wib by simp
  have g: "getUploadDate sampleEnv ''4'' False 0 = (''2026-11-03T09:00:00+07:00'', 1)"
    using upload_date_fallbacks [of False sampleEnv "''4''" _ 0] logs wib by simp
  from a b c d f g logs show ?thesis by simp
qed

text \<open>
  Claim C5 as stated fails: for the unlocked chapter \<open>4\<close> of the sample run the
  history query for the manifest throws while the history of the folder has a date; the
  resolver returns the current time and not the date of the folder, which is the next
  fallback.
\<close>

theorem manifest_query_throws_counterexample:
  "manifestLog sampleEnv ''4'' = ExecThrew
   \<and> folderLog sampleEnv ''4'' = ExecOutput ''2024-04-01T12:00:00+07:00''
   \<and> wibString sampleEnv ''2024-04-01T12:00:00+07:00'' = ''2024-04-01T12:00:00+07:00''
   \<and> getUploadDate sampleEnv ''4'' False 0 = (clock sampleEnv 0, 1)
   \<and> fst (getUploadDate sampleEnv ''4'' False 0) \<noteq> wibString sampleEnv ''2024-04-01T12:00:00+07:00''"
  by (simp add: getUploadDate_def getWIBTimestamp_def sampleEnv_def sampleWib_def)

section \<open>The aggregate view counter\<close>

text \<open>
  Claim C8. When a previous catalog exists (a catalog as the generator writes it, with a
  \<^verbatim>\<open>manga\<close> section whose views are an integer), both versions carry its views
  unchanged into the new document, whatever the configuration says. When no previous
  catalog exists, the counter is seeded from the configured \<open>views\<close>: a configured
  integer is taken as it is, and an absent field gives 0. The further conjuncts tell what
  the guards of the code do with a previous catalog that lacks a field: version 6.2 carries
  any truthy value and gives 0 for a falsy one, version 7.0 carries any value that is not
  undefined and otherwise seeds from the configuration, and a catalog without
  \<^verbatim>\<open>manga\<close> section counts as none.
\<close>

theorem total_views_carried:
  "(oldMangaData = Some cat \<and> old_manga cat = Some manga \<and> ms_views manga = JNum n
      \<longrightarrow> totalViews_v62 cfg oldMangaData = ms_views manga
        \<and> totalViews_v70 cfg oldMangaData = ms_views manga)
   \<and> (oldMangaData = None \<and> configViews cfg = JNum k
      \<longrightarrow> totalViews_v62 cfg oldMangaData = JNum k \<and> totalViews_v70 cfg oldMangaData = JNum k)
   \<and> (oldMangaData = None \<and> configViews cfg = JUndefined
      \<longrightarrow> totalViews_v62 cfg oldMangaData = JNum 0 \<and> totalViews_v70 cfg oldMangaData = JNum 0)
   \<and> (oldMangaData = Some cat \<and> old_manga cat = Some manga \<and> ms_views manga = JNum n
      \<longrightarrow> totalViews_v62 cfg oldMangaData = JNum n \<and> totalViews_v70 cfg oldMangaData = JNum n)
   \<and> (oldMangaData = Some cat \<and> old_manga cat = Some manga \<and> truthy (ms_views manga)
      \<longrightarrow> totalViews_v62 cfg oldMangaData = ms_views manga)
   \<and> (oldMangaData = Some cat \<and> old_manga cat = Some manga \<and> ms_views manga \<noteq> JUndefined
      \<longrightarrow> totalViews_v70 cfg oldMangaData = ms_views manga)
   \<and> (isFirstTimeOf oldMangaData
      \<longrightarrow> totalViews_v62 cfg oldMangaData = (if truthy (configViews cfg) then configViews cfg else JNum 0)
        \<and> totalViews_v70 cfg oldMangaData = (if truthy (configViews cfg) then configViews cfg else JNum 0))
   \<and> (isFirstTimeOf oldMangaData \<and> configViews cfg = JUndefined
      \<longrightarrow> totalViews_v62 cfg oldMangaData = JNum 0 \<and> totalViews_v70 cfg oldMangaData = JNum 0)
   \<and> (oldMangaData = Some cat \<and> old_manga cat = Some manga \<and> ms_views manga = JUndefined
      \<longrightarrow> totalViews_v62 cfg oldMangaData = JNum 0
        \<and> totalViews_v70 cfg oldMangaData = (if truthy (configViews cfg) then configViews cfg else JNum 0))"
  by (auto simp: totalViews_v62_def totalViews_v70_def isFirstTimeOf_def jsOr_def
      split: option.splits)

theorem total_views_carried_witness:
  "map_option old_manga sampleCatalog = Some (Some \<lparr> ms_views = JNum 7 \<rparr>)
   \<and> totalViews_v62 sampleConfig sampleCatalog = JNum 7
   \<and> totalViews_v70 sampleConfig sampleCatalog = JNum 7
   \<and> isFirstTimeOf None
   \<and> configViews sampleConfig = JNum 100
   \<and> totalViews_v62 sampleConfig None = JNum 100
   \<and> totalViews_v70 sampleConfig None = JNum 100
   \<and> configViews emptyConfig = JUndefined
   \<and> totalViews_v62 emptyConfig None = JNum 0
   \<and> totalViews_v70 emptyConfig None = JNum 0
   \<and> map_option old_manga sampleCatalogNoViews = Some (Some \<lparr> ms_views = JUndefined \<rparr>)
   \<and> totalViews_v62 sampleConfig sampleCatalogNoViews = JNum 0
   \<and> totalViews_v70 sampleConfig sampleCatalogNoViews = JNum 100"
proof -
  let ?cat = "\<lparr> old_manga = Some \<lparr> ms_views = JNum 7 \<rparr>,
               old_chapters = old_chapters (the sampleCatalog) \<rparr>"
  let ?bare = "\<lparr> old_manga = Some \<lparr> ms_views = JUndefined \<rparr>, old_chapters = Some [] \<rparr>"
  have s: "sampleCatalog = Some ?cat" by (simp add: sampleCatalog_def)
  have s': "sampleCatalogNoViews = Some ?bare" by (simp add: sampleCatalogNoViews_def)
  have f: "isFirstTimeOf None" by (simp add: isFirstTimeOf_def)
  have c: "configViews sampleConfig = JNum 100" "configViews emptyConfig = JUndefined"
    by (simp_all add: sampleConfig_def emptyConfig_def)
  have mm: "map_option old_manga sampleCatalog = Some (Some \<lparr> ms_views = JNum 7 \<rparr>)"
    "map_option old_manga sampleCatalogNoViews = Some (Some \<lparr> ms_views = JUndefined \<rparr>)"
    by (simp_all add: sampleCatalog_def sampleCatalogNoViews_def)
  have a: "totalViews_v62 sampleConfig sampleCatalog = JNum 7
      \<and> totalViews_v70 sampleConfig sampleCatalog = JNum 7"
    using total_views_carried [of sampleCatalog ?cat "\<lparr> ms_views = JNum 7 \<rparr>" 7 sampleConfig] s
    by simp
  have b: "totalViews_v62 sampleConfig None = JNum 100
      \<and> totalViews_v70 sampleConfig None = JNum 100"
    using total_views_carried [of None _ _ _ sampleConfig] f c by simp
  have d: "totalViews_v62 emptyConfig None = JNum 0 \<and> totalViews_v70 emptyConfig None = JNum 0"
    using total_views_carried [of None _ _ _ emptyConfig] f c by simp
  have g: "totalViews_v62 sampleConfig sampleCatalogNoViews = JNum 0
      \<and> totalViews_v70 sampleConfig sampleCatalogNoViews = JNum 100"
    using total_views_carried [of sampleCatalogNoViews ?bare "\<lparr> ms_views = JUndefined \<rparr>" _ sampleConfig]
      s' c by simp
  from a b d g mm f c show ?thesis by simp
qed

end
